theory Spec2Isabelle
  imports Complex_Main "HOL-Library.Word"
begin

section \<open>RPiGPIO_pig.c: the GPIO command dispatcher\<close>

text \<open>
  The source is one MEX entry point, \<^verbatim>\<open>mexFunction\<close>, two file-level variables
  (\<^verbatim>\<open>firstTime\<close>, \<^verbatim>\<open>isrDone\<close>), the notification handler \<^verbatim>\<open>isrCallback\<close>
  and the exit hook \<^verbatim>\<open>exitfunc\<close>. Everything else is the pigpio library, which is
  not part of the file: it is a parameter of the model, a record of functions over an
  abstract hardware state \<open>'h\<close>.

  Conventions of the embedding:
  \<^item> the input arguments \<^verbatim>\<open>prhs\<close> are the list of the doubles that
    \<^verbatim>\<open>mxGetScalar(prhs[i])\<close> gives, as real numbers, so \<^verbatim>\<open>nrhs\<close> is the length of
    the list; the casts \<^verbatim>\<open>(int) mxGetScalar(prhs[i])\<close> of lines 117-123 are \<open>c_int\<close>;
    the code only compares the resulting C integers and passes them on, it does no
    arithmetic on them, so they are modelled as \<open>int\<close>;
  \<^item> the output \<^verbatim>\<open>plhs[0]\<close> is an optional scalar; the doubles the code stores
    there are conversions of C integers, which are exact, so the scalar is an \<open>int\<close>;
  \<^item> \<^verbatim>\<open>mexErrMsgTxt\<close> leaves the call at once: the outcome is \<open>Inl\<close> of the error,
    paired with the state reached so far (the file-level variables and the hardware
    keep what was done before the abort);
  \<^item> a call that never comes back from the busy wait has no outcome: \<open>None\<close>;
  \<^item> every backend call, every access to the volatile \<^verbatim>\<open>isrDone\<close> by the calling
    thread, the registration of the exit hook and the printing of the usage text are
    appended to a log, in program order. A backend call is logged with the hardware
    state it was issued in and with the value it returned.
\<close>

subsection \<open>The backend\<close>

text \<open>The symbolic constants of \<^verbatim>\<open>pigpio.h\<close> that the source names.\<close>

datatype pin_mode = PI_INPUT | PI_OUTPUT

datatype pud = PI_PUD_OFF | PI_PUD_DOWN | PI_PUD_UP

datatype edge = EITHER_EDGE

text \<open>
  The library functions the source calls, each from the hardware state to its return
  value and the new hardware state. The two queries, \<^verbatim>\<open>gpioHardwareRevision\<close> and
  \<^verbatim>\<open>gpioGetPWMrange\<close>, only return a value. \<open>gpioSetISRFunc\<close> takes the handler as
  a flag: \<open>True\<close> for \<^verbatim>\<open>isrCallback\<close>, \<open>False\<close> for \<^verbatim>\<open>NULL\<close>. \<open>isrThread\<close> stands
  for the library's own thread: asked at a read of \<^verbatim>\<open>isrDone\<close> by the calling thread,
  it says whether the handler was invoked since the calling thread last looked, and
  with which \<^verbatim>\<open>(gpio, level, tick)\<close>.
\<close>

record 'h backend =
  gpioInitialise :: "'h \<Rightarrow> int \<times> 'h"
  gpioTerminate :: "'h \<Rightarrow> 'h"
  gpioHardwareRevision :: "'h \<Rightarrow> 32 word"
  gpioRead :: "int \<Rightarrow> 'h \<Rightarrow> int \<times> 'h"
  gpioWrite :: "int \<Rightarrow> int \<Rightarrow> 'h \<Rightarrow> int \<times> 'h"
  gpioGetPWMrange :: "int \<Rightarrow> 'h \<Rightarrow> int"
  gpioSetPWMrange :: "int \<Rightarrow> int \<Rightarrow> 'h \<Rightarrow> int \<times> 'h"
  gpioPWM :: "int \<Rightarrow> int \<Rightarrow> 'h \<Rightarrow> int \<times> 'h"
  gpioSetMode :: "int \<Rightarrow> pin_mode \<Rightarrow> 'h \<Rightarrow> int \<times> 'h"
  gpioSetPullUpDown :: "int \<Rightarrow> pud \<Rightarrow> 'h \<Rightarrow> int \<times> 'h"
  gpioSetISRFunc :: "int \<Rightarrow> edge \<Rightarrow> int \<Rightarrow> bool \<Rightarrow> 'h \<Rightarrow> int \<times> 'h"
  isrThread :: "'h \<Rightarrow> (int \<times> int \<times> 32 word) option \<times> 'h"

datatype call =
    GpioInitialise
  | GpioTerminate
  | GpioHardwareRevision
  | GpioRead int
  | GpioWrite int int
  | GpioGetPWMrange int
  | GpioSetPWMrange int int
  | GpioPWM int int
  | GpioSetMode int pin_mode
  | GpioSetPullUpDown int pud
  | GpioSetISRFunc int edge int bool

fun perform :: "'h backend \<Rightarrow> call \<Rightarrow> 'h \<Rightarrow> int \<times> 'h" where
  "perform bk GpioInitialise h = gpioInitialise bk h"
| "perform bk GpioTerminate h = (0, gpioTerminate bk h)"
| "perform bk GpioHardwareRevision h = (uint (gpioHardwareRevision bk h), h)"
| "perform bk (GpioRead p) h = gpioRead bk p h"
| "perform bk (GpioWrite p v) h = gpioWrite bk p v h"
| "perform bk (GpioGetPWMrange p) h = (gpioGetPWMrange bk p h, h)"
| "perform bk (GpioSetPWMrange p r) h = gpioSetPWMrange bk p r h"
| "perform bk (GpioPWM p d) h = gpioPWM bk p d h"
| "perform bk (GpioSetMode p m) h = gpioSetMode bk p m h"
| "perform bk (GpioSetPullUpDown p u) h = gpioSetPullUpDown bk p u h"
| "perform bk (GpioSetISRFunc p e t f) h = gpioSetISRFunc bk p e t f h"

subsection \<open>The state of the MEX file\<close>

datatype 'h event =
    Call 'h call int
  | Store int
  | Load int
  | AtExit
  | Usage

record 'h state =
  firstTime :: bool
  isrDone :: int
  exitHook :: bool
  hw :: "'h"
  log :: "'h event list"

text \<open>The values the static initialisers give, on hardware \<open>h\<close>.\<close>

definition loaded :: "'h \<Rightarrow> 'h state" where
  "loaded h = \<lparr>firstTime = True, isrDone = - 1000, exitHook = False, hw = h, log = []\<rparr>"

definition emit :: "'h event \<Rightarrow> 'h state \<Rightarrow> 'h state" where
  "emit e s = s\<lparr>log := log s @ [e]\<rparr>"

definition invoke :: "'h backend \<Rightarrow> call \<Rightarrow> 'h state \<Rightarrow> int \<times> 'h state" where
  "invoke bk c s =
     (case perform bk c (hw s) of
        (rc, h') \<Rightarrow> (rc, s\<lparr>hw := h', log := log s @ [Call (hw s) c rc]\<rparr>))"

text \<open>
  The messages of the \<^verbatim>\<open>mexErrMsgTxt\<close> calls, in the order of the source:
  \<^item> \<open>InitFailed\<close>: "Failed to initialize GPIO system with pigpio."
  \<^item> \<open>LevelMissing\<close>: "New logic level of output pin missing for output pin write."
  \<^item> \<open>PwmMissing\<close>: "New pwm level of output pin missing for output pin pulse-width modulation."
  \<^item> \<open>PwmInvalid\<close>: "Invalid pwm level specified. Must be in range 0 - 1024."
  \<^item> \<open>PwmFailed\<close>: "Failed to set new pwm level of output pin for output pin pulse-width modulation."
  \<^item> \<open>OpmodeMissing\<close>: "New opmode for pin missing for pin mode configuration."
  \<^item> \<open>PullMissing\<close>: "New pullup/down for pin missing for pin resistor configuration."
  \<^item> \<open>TimeoutMissing\<close>: "Timeout value in milliseconds missing."
  \<^item> \<open>UnknownCommand\<close>: "Unknown command code provided!"
\<close>

datatype error =
    InitFailed
  | LevelMissing
  | PwmMissing
  | PwmInvalid
  | PwmFailed
  | OpmodeMissing
  | PullMissing
  | TimeoutMissing
  | UnknownCommand

type_synonym 'h outcome = "(error + int option) \<times> 'h state"

subsection \<open>The handler and the exit hook\<close>

text \<open>\<^verbatim>\<open>void isrCallback(int gpio, int level, uint32_t tick) { isrDone = level; }\<close>\<close>

definition isrCallback :: "int \<Rightarrow> int \<Rightarrow> 32 word \<Rightarrow> 'h state \<Rightarrow> 'h state" where
  "isrCallback gpio level tick s = s\<lparr>isrDone := level\<rparr>"

text \<open>\<^verbatim>\<open>void exitfunc(void) { gpioTerminate(); firstTime = 1; }\<close>\<close>

definition exitfunc :: "'h backend \<Rightarrow> 'h state \<Rightarrow> 'h state" where
  "exitfunc bk s = (snd (invoke bk GpioTerminate s))\<lparr>firstTime := True\<rparr>"

text \<open>
  A read of the volatile \<^verbatim>\<open>isrDone\<close> by the calling thread. The library thread may
  have run the handler since the calling thread last looked; the read sees the result.
\<close>

definition isrDeliver :: "'h backend \<Rightarrow> 'h state \<Rightarrow> 'h state" where
  "isrDeliver bk s =
     (case isrThread bk (hw s) of
        (None, h') \<Rightarrow> s\<lparr>hw := h'\<rparr>
      | (Some (gpio, level, tick), h') \<Rightarrow> isrCallback gpio level tick (s\<lparr>hw := h'\<rparr>))"

definition load_isrDone :: "'h backend \<Rightarrow> 'h state \<Rightarrow> int \<times> 'h state" where
  "load_isrDone bk s =
     (let s1 = isrDeliver bk s in (isrDone s1, emit (Load (isrDone s1)) s1))"

text \<open>Line 186: \<^verbatim>\<open>while (isrDone == -1000);\<close>\<close>

partial_function (option) busy_wait :: "'h backend \<Rightarrow> 'h state \<Rightarrow> 'h state option" where
  "busy_wait bk s =
     (case load_isrDone bk s of
        (v, s1) \<Rightarrow> if v = - 1000 then busy_wait bk s1 else Some s1)"

subsection \<open>The entry point\<close>

text \<open>
  The cast \<^verbatim>\<open>(int) x\<close> of a double: the fractional part is discarded, the value is
  truncated toward zero. C leaves the conversion of a value whose integer part does
  not fit an \<^verbatim>\<open>int\<close> undefined; the definition truncates there too. The doubles
  that are not numbers or not finite have no real number and are not covered.
\<close>

definition c_int :: "real \<Rightarrow> int" where
  "c_int x = (if 0 \<le> x then \<lfloor>x\<rfloor> else \<lceil>x\<rceil>)"

text \<open>Lines 62-72: the lazy initialisation. \<open>Inl\<close> is the abort of line 64.\<close>

definition init_stage :: "'h backend \<Rightarrow> 'h state \<Rightarrow> 'h state + 'h state" where
  "init_stage bk s =
     (if firstTime s then
        (case invoke bk GpioInitialise s of
           (rc, s1) \<Rightarrow>
             if rc < 0 then Inl s1
             else Inr ((emit AtExit s1)\<lparr>exitHook := True, firstTime := False\<rparr>))
      else Inr s)"

text \<open>
  Lines 127-198: the \<^verbatim>\<open>switch (cmd)\<close>. In command 5, \<open>out0\<close>, \<open>out1\<close> and
  \<open>out2\<close> are the successive contents of \<^verbatim>\<open>*mxGetPr(plhs[0])\<close>: the zero of
  \<^verbatim>\<open>mxCreateDoubleMatrix\<close> (line 176), the -1 that line 182 stores when
  \<^verbatim>\<open>gpioSetISRFunc\<close> answers non-zero, and the \<^verbatim>\<open>rc\<close> that line 193 stores last;
  the caller gets the last one. The source has no \<^verbatim>\<open>return\<close> or \<^verbatim>\<open>break\<close> between
  line 182 and the busy wait of line 186.
\<close>

definition dispatch :: "'h backend \<Rightarrow> int \<Rightarrow> int \<Rightarrow> int \<Rightarrow> 'h state \<Rightarrow> 'h outcome option" where
  "dispatch bk cmd pin arg s =
     (if cmd = 0 then
        (case invoke bk (GpioRead pin) s of (rc, s1) \<Rightarrow> Some (Inr (Some rc), s1))
      else if cmd = 1 then
        (if arg < 0 then Some (Inl LevelMissing, s)
         else case invoke bk (GpioWrite pin arg) s of (rc, s1) \<Rightarrow> Some (Inr None, s1))
      else if cmd = 2 then
        (if arg < 0 then Some (Inl PwmMissing, s)
         else if arg > 1024 then Some (Inl PwmInvalid, s)
         else
           case invoke bk (GpioGetPWMrange pin) s of (rng, s1) \<Rightarrow>
           let s2 = (if rng \<noteq> 1024 then snd (invoke bk (GpioSetPWMrange pin 1024) s1) else s1) in
           case invoke bk (GpioPWM pin arg) s2 of (rc, s3) \<Rightarrow>
           if rc < 0 then Some (Inl PwmFailed, s3) else Some (Inr None, s3))
      else if cmd = 3 then
        (if arg < 0 then Some (Inl OpmodeMissing, s)
         else
           case invoke bk (GpioSetMode pin (if arg \<noteq> 0 then PI_OUTPUT else PI_INPUT)) s of
             (rc, s1) \<Rightarrow> Some (Inr None, s1))
      else if cmd = 4 then
        (if arg < - 1 then Some (Inl PullMissing, s)
         else
           case invoke bk (GpioSetPullUpDown pin
                  (if arg = 0 then PI_PUD_OFF else if arg > 0 then PI_PUD_UP else PI_PUD_DOWN)) s of
             (rc, s1) \<Rightarrow> Some (Inr None, s1))
      else if cmd = 5 then
        (if arg < - 1 then Some (Inl TimeoutMissing, s)
         else
           let out0 = Some (0::int);
               s1 = emit (Store (- 1000)) (s\<lparr>isrDone := - 1000\<rparr>) in
           case invoke bk (GpioSetISRFunc pin EITHER_EDGE arg True) s1 of (rc, s2) \<Rightarrow>
           let out1 = (if rc \<noteq> 0 then Some (- 1) else out0) in
           (case busy_wait bk s2 of
              None \<Rightarrow> None
            | Some s3 \<Rightarrow>
                (case invoke bk (GpioSetISRFunc pin EITHER_EDGE arg False) s3 of (rc', s4) \<Rightarrow>
                 case load_isrDone bk s4 of (v, s5) \<Rightarrow>
                 let rc'' = (if v = 2 then 0 else 1);
                     out2 = Some rc''
                 in Some (Inr out2, s5))))
      else Some (Inl UnknownCommand, s))"

text \<open>
  Lines 52-202. \<open>nlhs\<close> is the number of results the caller expects, \<open>prhs\<close> the
  input arguments as the host passes them.
\<close>

definition mexFunction :: "'h backend \<Rightarrow> nat \<Rightarrow> real list \<Rightarrow> 'h state \<Rightarrow> 'h outcome option" where
  "mexFunction bk nlhs prhs s =
     (case init_stage bk s of
        Inl s' \<Rightarrow> Some (Inl InitFailed, s')
      | Inr s0 \<Rightarrow>
          if length prhs = 0 \<and> nlhs = 1 then
            (case invoke bk GpioHardwareRevision s0 of
               (version, s1) \<Rightarrow> Some (Inr (Some version), s1))
          else if length prhs < 2 then Some (Inr None, emit Usage s0)
          else
            let cmd = c_int (prhs ! 0);
                pin = c_int (prhs ! 1);
                arg = (if length prhs > 2 then c_int (prhs ! 2) else - 1000)
            in dispatch bk cmd pin arg s0)"

subsection \<open>Reading the log\<close>

text \<open>The backend calls of a log, in order.\<close>

fun calls_of :: "'h event list \<Rightarrow> call list" where
  "calls_of [] = []"
| "calls_of (Call h c rc # es) = c # calls_of es"
| "calls_of (e # es) = calls_of es"

text \<open>What was appended to the log between state \<open>s\<close> and a later state \<open>s'\<close>.\<close>

definition new_events :: "'h state \<Rightarrow> 'h state \<Rightarrow> 'h event list" where
  "new_events s s' = drop (length (log s)) (log s')"

text \<open>The number of \<^verbatim>\<open>gpioInitialise\<close> calls of a log that succeeded.\<close>

fun successful_inits :: "'h event list \<Rightarrow> nat" where
  "successful_inits [] = 0"
| "successful_inits (Call h GpioInitialise rc # es) =
     (if rc < 0 then 0 else 1) + successful_inits es"
| "successful_inits (e # es) = successful_inits es"

text \<open>The number of \<^verbatim>\<open>gpioTerminate\<close> calls of a log.\<close>

fun terminations :: "'h event list \<Rightarrow> nat" where
  "terminations [] = 0"
| "terminations (Call h GpioTerminate rc # es) = 1 + terminations es"
| "terminations (e # es) = terminations es"

subsection \<open>The busy wait, poll by poll\<close>

text \<open>
  \<open>polls bk n s\<close> is the state after \<open>n\<close> reads of \<^verbatim>\<open>isrDone\<close>, and
  \<open>quiet bk n s\<close> says that each of the first \<open>n\<close> reads saw the sentinel. They
  describe the runs of \<open>busy_wait\<close> that end.
\<close>

fun polls :: "'h backend \<Rightarrow> nat \<Rightarrow> 'h state \<Rightarrow> 'h state" where
  "polls bk 0 s = s"
| "polls bk (Suc n) s = polls bk n (snd (load_isrDone bk s))"

fun quiet :: "'h backend \<Rightarrow> nat \<Rightarrow> 'h state \<Rightarrow> bool" where
  "quiet bk 0 s = True"
| "quiet bk (Suc n) s =
     (isrDone (snd (load_isrDone bk s)) = - 1000 \<and> quiet bk n (snd (load_isrDone bk s)))"

subsection \<open>A session\<close>

text \<open>
  What the host does with the MEX file in one process: it calls the entry point, each
  call with its \<open>(nlhs, prhs)\<close>, and it may flush the file, which runs the exit hook
  if \<^verbatim>\<open>mexAtExit\<close> has registered it (lines 66-68: "Register exit handler to close
  GPIO control when mex file is flushed"). An aborted call leaves the MEX file
  loaded, with its variables as the abort left them. A call that never returns ends
  the session without a state.
\<close>

datatype action = Invoke nat "real list" | Flush

fun run :: "'h backend \<Rightarrow> action list \<Rightarrow> 'h state \<Rightarrow> 'h state option" where
  "run bk [] s = Some s"
| "run bk (Invoke nlhs prhs # as) s =
     (case mexFunction bk nlhs prhs s of
        None \<Rightarrow> None
      | Some (r, s') \<Rightarrow> run bk as s')"
| "run bk (Flush # as) s = run bk as (if exitHook s then exitfunc bk s else s)"

subsection \<open>When a call aborts\<close>

text \<open>
  The two backend failures the source tests for, read from the backend itself:
  \<^verbatim>\<open>gpioInitialise() < 0\<close> on a first call, and \<^verbatim>\<open>gpioPWM(pin, duty) < 0\<close> in the
  hardware state in which command 2 calls it, that is after the lazy initialisation
  and after the range query and the range call of lines 149-150.
\<close>

definition init_fails :: "'h backend \<Rightarrow> 'h state \<Rightarrow> bool" where
  "init_fails bk s = (firstTime s \<and> fst (gpioInitialise bk (hw s)) < 0)"

definition ready_hw :: "'h backend \<Rightarrow> 'h state \<Rightarrow> 'h" where
  "ready_hw bk s = (if firstTime s then snd (gpioInitialise bk (hw s)) else hw s)"

definition ranged_hw :: "'h backend \<Rightarrow> int \<Rightarrow> 'h \<Rightarrow> 'h" where
  "ranged_hw bk pin h =
     (if gpioGetPWMrange bk pin h \<noteq> 1024 then snd (gpioSetPWMrange bk pin 1024 h) else h)"

definition pwm_fails :: "'h backend \<Rightarrow> int \<Rightarrow> int \<Rightarrow> 'h state \<Rightarrow> bool" where
  "pwm_fails bk pin duty s = (fst (gpioPWM bk pin duty (ranged_hw bk pin (ready_hw bk s))) < 0)"

text \<open>
  The causes of a fatal abort as the specification lists them, on the values the
  caller supplies: initialisation of the subsystem fails, a required third argument
  is missing for commands 1 to 5, the PWM duty is out of range, the backend PWM call
  reports failure, or the command code is unknown. The command code is the first of
  at least two arguments.
\<close>

definition spec_abort_causes :: "'h backend \<Rightarrow> real list \<Rightarrow> 'h state \<Rightarrow> bool" where
  "spec_abort_causes bk prhs s =
     (init_fails bk s
      \<or> (2 \<le> length prhs \<and> prhs ! 0 \<in> {1, 2, 3, 4, 5} \<and> length prhs < 3)
      \<or> (3 \<le> length prhs \<and> prhs ! 0 = 2 \<and> (prhs ! 2 < 0 \<or> 1024 < prhs ! 2))
      \<or> (3 \<le> length prhs \<and> prhs ! 0 = 2 \<and>
          pwm_fails bk (c_int (prhs ! 1)) (c_int (prhs ! 2)) s)
      \<or> (2 \<le> length prhs \<and> prhs ! 0 \<notin> {0, 1, 2, 3, 4, 5}))"

text \<open>
  The causes as the code has them. The command code, the pin and the third argument
  count by their integer parts, the fraction being cut off toward zero: the command is
  \<open>n\<close> for a code \<open>c\<close> with \<open>c_int c = n\<close>; for the commands 1 to 3 a third argument
  of -1 or less, and for the commands 4 and 5 one of -2 or less, counts as missing;
  the duty is out of range from 1025 on; a code is unknown when it is -1 or less or
  6 or more.
\<close>

definition abort_causes :: "'h backend \<Rightarrow> real list \<Rightarrow> 'h state \<Rightarrow> bool" where
  "abort_causes bk prhs s =
     (init_fails bk s
      \<or> (2 \<le> length prhs \<and> c_int (prhs ! 0) \<in> {1, 2, 3} \<and>
          (length prhs < 3 \<or> prhs ! 2 \<le> - 1))
      \<or> (2 \<le> length prhs \<and> c_int (prhs ! 0) \<in> {4, 5} \<and>
          (length prhs < 3 \<or> prhs ! 2 \<le> - 2))
      \<or> (3 \<le> length prhs \<and> c_int (prhs ! 0) = 2 \<and> 1025 \<le> prhs ! 2)
      \<or> (3 \<le> length prhs \<and> c_int (prhs ! 0) = 2 \<and> - 1 < prhs ! 2 \<and> prhs ! 2 < 1025 \<and>
          pwm_fails bk (c_int (prhs ! 1)) (c_int (prhs ! 2)) s)
      \<or> (2 \<le> length prhs \<and> (prhs ! 0 \<le> - 1 \<or> 6 \<le> prhs ! 0)))"

subsection \<open>A board to run the code on\<close>

text \<open>
  A small backend for concrete runs. It has one logic level, one PWM range and one
  duty cycle for all pins, accepts the pins 0 to 31 and answers every other pin with a
  negative code without doing anything. \<^verbatim>\<open>gpioInitialise\<close> answers \<open>init_rc\<close>. A
  registered handler is invoked once, with \<open>fire_level\<close>, after \<open>countdown\<close> quiet
  polls; with no handler registered nothing is ever delivered.
\<close>

record board =
  init_rc :: int
  pin_level :: int
  pwm_range :: int
  pwm_duty :: int
  armed :: "int option"
  countdown :: nat
  fire_level :: int

definition user_gpio :: "int \<Rightarrow> bool" where
  "user_gpio p = (0 \<le> p \<and> p \<le> 31)"

definition demo :: "board backend" where
  "demo = \<lparr>
     gpioInitialise = (\<lambda>h. (init_rc h, h)),
     gpioTerminate = (\<lambda>h. h\<lparr>armed := None\<rparr>),
     gpioHardwareRevision = (\<lambda>h. 0xA02082),
     gpioRead = (\<lambda>p h. (if user_gpio p then pin_level h else - 3, h)),
     gpioWrite = (\<lambda>p v h. if user_gpio p then (0, h\<lparr>pin_level := v\<rparr>) else (- 3, h)),
     gpioGetPWMrange = (\<lambda>p h. if user_gpio p then pwm_range h else - 2),
     gpioSetPWMrange = (\<lambda>p r h. if user_gpio p then (r, h\<lparr>pwm_range := r\<rparr>) else (- 2, h)),
     gpioPWM = (\<lambda>p d h. if user_gpio p then (0, h\<lparr>pwm_duty := d\<rparr>) else (- 2, h)),
     gpioSetMode = (\<lambda>p m h. (if user_gpio p then 0 else - 3, h)),
     gpioSetPullUpDown = (\<lambda>p u h. (if user_gpio p then 0 else - 3, h)),
     gpioSetISRFunc = (\<lambda>p e t f h.
        if user_gpio p then (0, h\<lparr>armed := (if f then Some p else None)\<rparr>) else (- 3, h)),
     isrThread = (\<lambda>h.
        case armed h of
          None \<Rightarrow> (None, h)
        | Some p \<Rightarrow>
            if countdown h = 0 then (Some (p, fire_level h, 0), h\<lparr>armed := None\<rparr>)
            else (None, h\<lparr>countdown := countdown h - 1\<rparr>))
   \<rparr>"

definition board0 :: board where
  "board0 = \<lparr>init_rc = 79, pin_level = 0, pwm_range = 255, pwm_duty = 0,
             armed = None, countdown = 2, fire_level = 1\<rparr>"

section \<open>Properties\<close>

subsection \<open>The cast\<close>

lemma c_int_of_int: "c_int (of_int n) = n"
  by (simp add: c_int_def)

lemma c_int_numeral [simp]:
  "c_int 0 = 0" "c_int 1 = 1" "c_int (numeral k) = numeral k"
  "c_int (- 1) = - 1" "c_int (- numeral k) = - numeral k"
  by (simp_all add: c_int_def ceiling_def)

lemma c_int_less_0: "c_int x < 0 \<longleftrightarrow> x \<le> - 1"
  by (auto simp: c_int_def ceiling_less_iff)

lemma c_int_less_m1: "c_int x < - 1 \<longleftrightarrow> x \<le> - 2"
  by (auto simp: c_int_def ceiling_less_iff floor_less_iff)

lemma c_int_greater_1024: "1024 < c_int x \<longleftrightarrow> 1025 \<le> x"
  by (auto simp: c_int_def less_floor_iff)


lemma c_int_unknown: "c_int x \<notin> {0, 1, 2, 3, 4, 5} \<longleftrightarrow> x \<le> - 1 \<or> 6 \<le> x"
proof -
  have "c_int x \<notin> {0, 1, 2, 3, 4, 5} \<longleftrightarrow> c_int x < 0 \<or> 5 < c_int x" by auto
  also have "5 < c_int x \<longleftrightarrow> 6 \<le> x"
    by (auto simp: c_int_def less_floor_iff)
  finally show ?thesis by (simp add: c_int_less_0)
qed

lemma c_int_fractions:
  "c_int (2049 / 2) = 1024" "c_int (- (1 / 2)) = 0" "c_int (1 / 2) = 0"
  by (simp_all add: c_int_def ceiling_def)

lemma c_int_nonneg: "0 \<le> c_int x \<longleftrightarrow> - 1 < x"
  using c_int_less_0 [of x] by linarith

lemma c_int_le_1024: "c_int x \<le> 1024 \<longleftrightarrow> x < 1025"
  using c_int_greater_1024 [of x] by linarith


subsection \<open>The log, the backend calls and the lazy initialisation\<close>

lemma calls_of_append: "calls_of (xs @ ys) = calls_of xs @ calls_of ys"
  by (induction xs rule: calls_of.induct) simp_all

lemma calls_of_loads: "calls_of (replicate n (Load v)) = []"
  by (induction n) simp_all

lemma invoke_fst: "fst (invoke bk c s) = fst (perform bk c (hw s))"
  by (simp add: invoke_def split: prod.splits)

lemma invoke_snd:
  "snd (invoke bk c s) =
     s\<lparr>hw := snd (perform bk c (hw s)),
       log := log s @ [Call (hw s) c (fst (perform bk c (hw s)))]\<rparr>"
  by (simp add: invoke_def split: prod.splits)

lemma invoke_eq:
  "invoke bk c s = (rc, s') \<longleftrightarrow>
     rc = fst (perform bk c (hw s)) \<and>
     s' = s\<lparr>hw := snd (perform bk c (hw s)),
             log := log s @ [Call (hw s) c (fst (perform bk c (hw s)))]\<rparr>"
  by (auto simp: invoke_def split: prod.splits)

text \<open>What the lazy initialisation leaves behind when it passes and when it aborts.\<close>

lemma init_stage_Inr:
  "init_stage bk s = Inr s0 \<Longrightarrow>
     \<not> firstTime s0 \<and>
     log s0 = log s @ (if firstTime s
                        then [Call (hw s) GpioInitialise (fst (gpioInitialise bk (hw s))), AtExit]
                        else []) \<and>
     (firstTime s \<longrightarrow> 0 \<le> fst (gpioInitialise bk (hw s)) \<and> exitHook s0)"
  by (auto simp: init_stage_def invoke_eq emit_def split: if_splits prod.splits)

lemma init_stage_Inl:
  "init_stage bk s = Inl s0 \<Longrightarrow>
     firstTime s \<and> firstTime s0 \<and> fst (gpioInitialise bk (hw s)) < 0 \<and>
     log s0 = log s @ [Call (hw s) GpioInitialise (fst (gpioInitialise bk (hw s)))]"
  by (auto simp: init_stage_def invoke_eq emit_def split: if_splits prod.splits)

lemma init_stage_skip: "\<not> firstTime s \<Longrightarrow> init_stage bk s = Inr s"
  by (simp add: init_stage_def)


lemma init_stage_hw:
  "init_stage bk s = Inr s0 \<or> init_stage bk s = Inl s0 \<Longrightarrow> hw s0 = ready_hw bk s"
  by (auto simp: init_stage_def ready_hw_def invoke_eq emit_def split: if_splits prod.splits)

lemma init_stage_fails:
  "init_fails bk s \<longleftrightarrow> (\<exists>s0. init_stage bk s = Inl s0)"
  by (auto simp: init_stage_def init_fails_def invoke_eq split: if_splits prod.splits)

text \<open>The entry point, branch by branch.\<close>

lemma mexFunction_init_failed:
  "init_stage bk s = Inl s0 \<Longrightarrow> mexFunction bk nlhs prhs s = Some (Inl InitFailed, s0)"
  by (simp add: mexFunction_def)

lemma mexFunction_revision:
  "init_stage bk s = Inr s0 \<Longrightarrow>
   mexFunction bk 1 [] s =
     Some (Inr (Some (uint (gpioHardwareRevision bk (hw s0)))),
           snd (invoke bk GpioHardwareRevision s0))"
  by (simp add: mexFunction_def split_beta invoke_fst)

lemma mexFunction_usage:
  "init_stage bk s = Inr s0 \<Longrightarrow> length prhs < 2 \<Longrightarrow> \<not> (length prhs = 0 \<and> nlhs = 1) \<Longrightarrow>
   mexFunction bk nlhs prhs s = Some (Inr None, emit Usage s0)"
  by (auto simp: mexFunction_def)

lemma mexFunction_dispatch:
  "init_stage bk s = Inr s0 \<Longrightarrow> 2 \<le> length prhs \<Longrightarrow>
   mexFunction bk nlhs prhs s =
     dispatch bk (c_int (prhs ! 0)) (c_int (prhs ! 1))
       (if length prhs > 2 then c_int (prhs ! 2) else - 1000) s0"
  by (auto simp: mexFunction_def Let_def)

subsection \<open>The busy wait\<close>

text \<open>
  \<open>busy_wait\<close> ends exactly when some read sees a value other than the sentinel:
  \<open>busy_wait_complete\<close> gives the result when the \<open>n + 1\<close>-st read is the first such
  read, \<open>busy_wait_sound\<close> finds that read in every run that ends, and
  \<open>busy_wait_None\<close> says that the loop goes on for ever exactly when every read sees
  the sentinel.
\<close>

lemma load_isrDone_eq: "load_isrDone bk s = (v, s1) \<Longrightarrow> v = isrDone s1"
  by (auto simp: load_isrDone_def Let_def emit_def)

lemma load_isrDone_fst: "fst (load_isrDone bk s) = isrDone (snd (load_isrDone bk s))"
  by (simp add: load_isrDone_def Let_def emit_def)

lemma load_isrDone_log:
  "log (snd (load_isrDone bk s)) = log s @ [Load (isrDone (snd (load_isrDone bk s)))]"
  by (simp add: load_isrDone_def Let_def emit_def isrDeliver_def isrCallback_def
      split: prod.splits option.splits)

lemma load_isrDone_keeps:
  "firstTime (snd (load_isrDone bk s)) = firstTime s"
  "exitHook (snd (load_isrDone bk s)) = exitHook s"
  by (simp_all add: load_isrDone_def Let_def emit_def isrDeliver_def isrCallback_def
      split: prod.splits option.splits)

lemma busy_wait_unfold:
  "busy_wait bk s =
     (if isrDone (snd (load_isrDone bk s)) = - 1000 then busy_wait bk (snd (load_isrDone bk s))
      else Some (snd (load_isrDone bk s)))"
  by (subst busy_wait.simps) (auto dest: load_isrDone_eq split: prod.splits)

lemma polls_Suc_right: "polls bk (Suc n) s = snd (load_isrDone bk (polls bk n s))"
  by (induction n arbitrary: s) simp_all

lemma polls_keeps: "firstTime (polls bk n s) = firstTime s" "exitHook (polls bk n s) = exitHook s"
  by (induction n arbitrary: s) (simp_all add: load_isrDone_keeps)

lemma quiet_log: "quiet bk n s \<Longrightarrow> log (polls bk n s) = log s @ replicate n (Load (- 1000))"
proof (induction n arbitrary: s)
  case 0
  then show ?case by simp
next
  case (Suc n)
  then have "log (polls bk n (snd (load_isrDone bk s))) =
      log (snd (load_isrDone bk s)) @ replicate n (Load (- 1000))" by simp
  with Suc.prems show ?case by (simp add: load_isrDone_log)
qed


lemma busy_wait_sound:
  assumes "busy_wait bk s = Some y"
  shows "\<exists>n. y = polls bk (Suc n) s \<and> quiet bk n s \<and> isrDone y \<noteq> - 1000"
proof (rule busy_wait.raw_induct[OF _ assms])
  fix bw :: "'h backend \<Rightarrow> 'h state \<Rightarrow> 'h state option" and bk s y
  assume IH: "\<And>bk s y. bw bk s = Some y \<Longrightarrow>
                \<exists>n. y = polls bk (Suc n) s \<and> quiet bk n s \<and> isrDone y \<noteq> - 1000"
  assume h: "(case load_isrDone bk s of (v, s1) \<Rightarrow> if v = - 1000 then bw bk s1 else Some s1) = Some y"
  let ?s1 = "snd (load_isrDone bk s)"
  show "\<exists>n. y = polls bk (Suc n) s \<and> quiet bk n s \<and> isrDone y \<noteq> - 1000"
  proof (cases "isrDone ?s1 = - 1000")
    case True
    with h have "bw bk ?s1 = Some y" by (auto dest: load_isrDone_eq split: prod.splits)
    from IH[OF this] obtain n
      where "y = polls bk (Suc n) ?s1" "quiet bk n ?s1" "isrDone y \<noteq> - 1000" by blast
    with True have "y = polls bk (Suc (Suc n)) s \<and> quiet bk (Suc n) s \<and> isrDone y \<noteq> - 1000"
      by simp
    then show ?thesis by blast
  next
    case False
    with h have "y = ?s1" by (auto dest: load_isrDone_eq split: prod.splits)
    with False have "y = polls bk (Suc 0) s \<and> quiet bk 0 s \<and> isrDone y \<noteq> - 1000" by simp
    then show ?thesis by blast
  qed
qed

lemma busy_wait_log:
  assumes "busy_wait bk s = Some y"
  shows "\<exists>n. log y = log s @ replicate n (Load (- 1000)) @ [Load (isrDone y)] \<and>
             isrDone y \<noteq> - 1000 \<and> firstTime y = firstTime s \<and> exitHook y = exitHook s"
proof -
  from busy_wait_sound[OF assms] obtain n
    where y: "y = polls bk (Suc n) s" and q: "quiet bk n s" and d: "isrDone y \<noteq> - 1000" by blast
  have "log y = log (polls bk n s) @ [Load (isrDone y)]"
    unfolding y polls_Suc_right by (rule load_isrDone_log)
  with quiet_log[OF q] have "log y = log s @ replicate n (Load (- 1000)) @ [Load (isrDone y)]"
    by simp
  moreover have "firstTime y = firstTime s" "exitHook y = exitHook s"
    unfolding y by (rule polls_keeps)+
  ultimately show ?thesis using d by blast
qed



subsection \<open>The switch, one command at a time\<close>

lemma dispatch_read:
  "dispatch bk 0 pin arg s =
     Some (Inr (Some (fst (gpioRead bk pin (hw s)))), snd (invoke bk (GpioRead pin) s))"
  by (simp add: dispatch_def split_beta invoke_fst)

lemma dispatch_write:
  "dispatch bk 1 pin arg s =
     (if arg < 0 then Some (Inl LevelMissing, s)
      else Some (Inr None, snd (invoke bk (GpioWrite pin arg) s)))"
  by (simp add: dispatch_def split_beta)

lemma dispatch_pwm:
  "dispatch bk 2 pin arg s =
     (if arg < 0 then Some (Inl PwmMissing, s)
      else if 1024 < arg then Some (Inl PwmInvalid, s)
      else
        let s1 = snd (invoke bk (GpioGetPWMrange pin) s);
            s2 = (if gpioGetPWMrange bk pin (hw s) \<noteq> 1024
                  then snd (invoke bk (GpioSetPWMrange pin 1024) s1) else s1);
            s3 = snd (invoke bk (GpioPWM pin arg) s2)
        in Some (if fst (gpioPWM bk pin arg (hw s2)) < 0 then Inl PwmFailed else Inr None, s3))"
  by (simp add: dispatch_def split_beta invoke_fst Let_def)

lemma dispatch_mode:
  "dispatch bk 3 pin arg s =
     (if arg < 0 then Some (Inl OpmodeMissing, s)
      else Some (Inr None,
             snd (invoke bk (GpioSetMode pin (if arg \<noteq> 0 then PI_OUTPUT else PI_INPUT)) s)))"
  by (simp add: dispatch_def split_beta)

lemma dispatch_pull:
  "dispatch bk 4 pin arg s =
     (if arg < - 1 then Some (Inl PullMissing, s)
      else Some (Inr None,
             snd (invoke bk (GpioSetPullUpDown pin
                    (if arg = 0 then PI_PUD_OFF else if arg > 0 then PI_PUD_UP else PI_PUD_DOWN)) s)))"
  by (simp add: dispatch_def split_beta)

lemma dispatch_timeout_missing:
  "arg < - 1 \<Longrightarrow> dispatch bk 5 pin arg s = Some (Inl TimeoutMissing, s)"
  by (simp add: dispatch_def)

text \<open>The edge wait of command 5, once its argument has passed the test of line 173.\<close>

lemma dispatch_edge_wait:
  assumes "- 1 \<le> arg"
  shows "dispatch bk 5 pin arg s0 =
     (case busy_wait bk (snd (invoke bk (GpioSetISRFunc pin EITHER_EDGE arg True)
                          (emit (Store (- 1000)) (s0\<lparr>isrDone := - 1000\<rparr>)))) of
        None \<Rightarrow> None
      | Some s3 \<Rightarrow>
          Some (Inr (Some (if isrDone (snd (load_isrDone bk
                                (snd (invoke bk (GpioSetISRFunc pin EITHER_EDGE arg False) s3)))) = 2
                           then 0 else 1)),
                snd (load_isrDone bk (snd (invoke bk (GpioSetISRFunc pin EITHER_EDGE arg False) s3)))))"
  using assms
  by (simp add: dispatch_def Let_def split_beta load_isrDone_fst split: option.splits)

lemma dispatch_unknown:
  "cmd \<notin> {0, 1, 2, 3, 4, 5} \<Longrightarrow> dispatch bk cmd pin arg s = Some (Inl UnknownCommand, s)"
  by (simp add: dispatch_def)

lemma edge_wait_log:
  assumes "- 1 \<le> arg" and "dispatch bk 5 pin arg s0 = Some (r, s')"
  shows "\<exists>n w v h1 rc1 h2 rc2.
           log s' = log s0 @
             Store (- 1000) # Call h1 (GpioSetISRFunc pin EITHER_EDGE arg True) rc1 #
             replicate n (Load (- 1000)) @
             [Load w, Call h2 (GpioSetISRFunc pin EITHER_EDGE arg False) rc2, Load v] \<and>
           w \<noteq> - 1000 \<and> r = Inr (Some (if v = 2 then 0 else 1)) \<and>
           firstTime s' = firstTime s0"
proof -
  let ?s2 = "snd (invoke bk (GpioSetISRFunc pin EITHER_EDGE arg True)
                   (emit (Store (- 1000)) (s0\<lparr>isrDone := - 1000\<rparr>)))"
  from assms(2) obtain s3 where bw: "busy_wait bk ?s2 = Some s3"
    and s': "s' = snd (load_isrDone bk (snd (invoke bk (GpioSetISRFunc pin EITHER_EDGE arg False) s3)))"
    and r': "r = Inr (Some (if isrDone (snd (load_isrDone bk
               (snd (invoke bk (GpioSetISRFunc pin EITHER_EDGE arg False) s3)))) = 2 then 0 else 1))"
    unfolding dispatch_edge_wait [OF assms(1)]
    by (cases "busy_wait bk ?s2") auto
  from r' have r: "r = Inr (Some (if isrDone s' = 2 then 0 else 1))"
    unfolding s' .
  from busy_wait_log[OF bw] obtain n where
    l3: "log s3 = log ?s2 @ replicate n (Load (- 1000)) @ [Load (isrDone s3)]"
    and d3: "isrDone s3 \<noteq> - 1000" and f3: "firstTime s3 = firstTime ?s2" by blast
  have "log s' = log s0 @ Store (- 1000) #
          Call (hw s0) (GpioSetISRFunc pin EITHER_EDGE arg True)
             (fst (gpioSetISRFunc bk pin EITHER_EDGE arg True (hw s0))) #
          replicate n (Load (- 1000)) @
          [Load (isrDone s3),
           Call (hw s3) (GpioSetISRFunc pin EITHER_EDGE arg False)
             (fst (gpioSetISRFunc bk pin EITHER_EDGE arg False (hw s3))),
           Load (isrDone s')]"
    unfolding s' load_isrDone_log by (simp add: invoke_snd l3 emit_def)
  moreover have "firstTime s' = firstTime s0"
    unfolding s' by (simp add: load_isrDone_keeps invoke_snd f3 emit_def)
  ultimately show ?thesis using r d3 by blast
qed

text \<open>Counting initialisations and terminations in a log.\<close>

lemma successful_inits_append:
  "successful_inits (xs @ ys) = successful_inits xs + successful_inits ys"
  by (induction xs rule: successful_inits.induct) simp_all

lemma successful_inits_loads: "successful_inits (replicate n (Load v)) = 0"
  by (induction n) simp_all

lemma terminations_append: "terminations (xs @ ys) = terminations xs + terminations ys"
  by (induction xs rule: terminations.induct) simp_all

text \<open>When the switch aborts.\<close>

lemma dispatch_aborts:
  "(\<exists>e s'. dispatch bk cmd pin arg s0 = Some (Inl e, s')) \<longleftrightarrow>
     (cmd \<in> {1, 2, 3} \<and> arg < 0) \<or> (cmd \<in> {4, 5} \<and> arg < - 1) \<or>
     (cmd = 2 \<and> 1024 < arg) \<or>
     (cmd = 2 \<and> 0 \<le> arg \<and> arg \<le> 1024 \<and>
        fst (gpioPWM bk pin arg (ranged_hw bk pin (hw s0))) < 0) \<or>
     cmd \<notin> {0, 1, 2, 3, 4, 5}"
proof -
  consider "cmd = 0" | "cmd = 1" | "cmd = 2" | "cmd = 3" | "cmd = 4"
    | "cmd = 5" "arg < - 1" | "cmd = 5" "- 1 \<le> arg" | "cmd \<notin> {0, 1, 2, 3, 4, 5}"
    by fastforce
  then show ?thesis
  proof cases
    case 1
    then show ?thesis by (simp add: dispatch_read)
  next
    case 2
    then show ?thesis by (simp add: dispatch_write)
  next
    case 3
    then show ?thesis
      by (auto simp: dispatch_pwm Let_def invoke_snd ranged_hw_def)
  next
    case 4
    then show ?thesis by (simp add: dispatch_mode)
  next
    case 5
    then show ?thesis by (simp add: dispatch_pull)
  next
    case 6
    then show ?thesis by (simp add: dispatch_timeout_missing)
  next
    case 7
    then show ?thesis by (auto simp: dispatch_edge_wait split: option.splits)
  next
    case 8
    then show ?thesis by (auto simp: dispatch_unknown)
  qed
qed

text \<open>The switch never touches \<^verbatim>\<open>firstTime\<close> and never calls \<^verbatim>\<open>gpioInitialise\<close>.\<close>

lemma dispatch_no_init:
  assumes "dispatch bk cmd pin arg s0 = Some (r, s')"
  shows "firstTime s' = firstTime s0 \<and>
         (\<exists>evs. log s' = log s0 @ evs \<and> GpioInitialise \<notin> set (calls_of evs) \<and>
                successful_inits evs = 0)"
proof -
  consider "cmd = 0" | "cmd = 1" | "cmd = 2" | "cmd = 3" | "cmd = 4"
    | "cmd = 5" "arg < - 1" | "cmd = 5" "- 1 \<le> arg" | "cmd \<notin> {0, 1, 2, 3, 4, 5}"
    by fastforce
  then show ?thesis
  proof cases
    case 1
    with assms show ?thesis by (auto simp: dispatch_read invoke_snd)
  next
    case 2
    with assms show ?thesis by (auto simp: dispatch_write invoke_snd split: if_splits)
  next
    case 3
    with assms show ?thesis by (auto simp: dispatch_pwm invoke_snd Let_def split: if_splits)
  next
    case 4
    with assms show ?thesis by (auto simp: dispatch_mode invoke_snd split: if_splits)
  next
    case 5
    with assms show ?thesis by (auto simp: dispatch_pull invoke_snd split: if_splits)
  next
    case 6
    with assms show ?thesis by (auto simp: dispatch_timeout_missing)
  next
    case 7
    from assms have "dispatch bk 5 pin arg s0 = Some (r, s')" using 7 by simp
    from edge_wait_log[OF 7(2) this] 7 show ?thesis
      by (auto simp: calls_of_append calls_of_loads successful_inits_append successful_inits_loads)
  next
    case 8
    with assms show ?thesis by (auto simp: dispatch_unknown)
  qed
qed

subsection \<open>Runs on the board\<close>

lemma demo_simps:
  "gpioInitialise demo h = (init_rc h, h)"
  "gpioTerminate demo h = h\<lparr>armed := None\<rparr>"
  "gpioHardwareRevision demo h = 0xA02082"
  "gpioRead demo p h = (if user_gpio p then pin_level h else - 3, h)"
  "gpioWrite demo p v h = (if user_gpio p then (0, h\<lparr>pin_level := v\<rparr>) else (- 3, h))"
  "gpioGetPWMrange demo p h = (if user_gpio p then pwm_range h else - 2)"
  "gpioSetPWMrange demo p r h = (if user_gpio p then (r, h\<lparr>pwm_range := r\<rparr>) else (- 2, h))"
  "gpioPWM demo p d h = (if user_gpio p then (0, h\<lparr>pwm_duty := d\<rparr>) else (- 2, h))"
  "gpioSetMode demo p m h = (if user_gpio p then 0 else - 3, h)"
  "gpioSetPullUpDown demo p u h = (if user_gpio p then 0 else - 3, h)"
  "gpioSetISRFunc demo p e t f h =
     (if user_gpio p then (0, h\<lparr>armed := (if f then Some p else None)\<rparr>) else (- 3, h))"
  "isrThread demo h =
     (case armed h of
        None \<Rightarrow> (None, h)
      | Some p \<Rightarrow>
          if countdown h = 0 then (Some (p, fire_level h, 0), h\<lparr>armed := None\<rparr>)
          else (None, h\<lparr>countdown := countdown h - 1\<rparr>))"
  by (simp_all add: demo_def)

lemma demo_init_ok:
  "init_stage demo (loaded board0) =
     Inr \<lparr>firstTime = False, isrDone = - 1000, exitHook = True, hw = board0,
          log = [Call board0 GpioInitialise 79, AtExit]\<rparr>"
  by (simp add: init_stage_def invoke_def emit_def loaded_def demo_simps board0_def)

lemma demo_init_fails:
  "init_stage demo (loaded (board0\<lparr>init_rc := - 1\<rparr>)) =
     Inl \<lparr>firstTime = True, isrDone = - 1000, exitHook = False, hw = board0\<lparr>init_rc := - 1\<rparr>,
          log = [Call (board0\<lparr>init_rc := - 1\<rparr>) GpioInitialise (- 1)]\<rparr>"
  by (simp add: init_stage_def invoke_def emit_def loaded_def demo_simps board0_def)

lemma demo_edge_wait_run:
  "mexFunction demo 1 [5, 17, 100] (loaded board0) =
     Some (Inr (Some 1),
       \<lparr>firstTime = False, isrDone = 1, exitHook = True, hw = board0\<lparr>countdown := 0\<rparr>,
         log = [Call board0 GpioInitialise 79, AtExit, Store (- 1000),
                Call board0 (GpioSetISRFunc 17 EITHER_EDGE 100 True) 0,
                Load (- 1000), Load (- 1000), Load 1,
                Call (board0\<lparr>countdown := 0\<rparr>) (GpioSetISRFunc 17 EITHER_EDGE 100 False) 0,
                Load 1]\<rparr>)"
proof -
  have "mexFunction demo 1 [5, 17, 100] (loaded board0) =
      dispatch demo 5 17 100
        \<lparr>firstTime = False, isrDone = - 1000, exitHook = True, hw = board0,
          log = [Call board0 GpioInitialise 79, AtExit]\<rparr>"
    by (simp add: mexFunction_dispatch [OF demo_init_ok])
  also have "\<dots> = Some (Inr (Some 1),
       \<lparr>firstTime = False, isrDone = 1, exitHook = True, hw = board0\<lparr>countdown := 0\<rparr>,
         log = [Call board0 GpioInitialise 79, AtExit, Store (- 1000),
                Call board0 (GpioSetISRFunc 17 EITHER_EDGE 100 True) 0,
                Load (- 1000), Load (- 1000), Load 1,
                Call (board0\<lparr>countdown := 0\<rparr>) (GpioSetISRFunc 17 EITHER_EDGE 100 False) 0,
                Load 1]\<rparr>)"
    by (simp add: dispatch_edge_wait busy_wait_unfold
        invoke_snd emit_def load_isrDone_def isrDeliver_def isrCallback_def Let_def
        demo_simps user_gpio_def board0_def)
  finally show ?thesis .
qed

lemma demo_session:
  "run demo [Invoke 1 [], Flush, Invoke 1 []] (loaded board0) =
     Some \<lparr>firstTime = False, isrDone = - 1000, exitHook = True, hw = board0,
            log = [Call board0 GpioInitialise 79, AtExit,
                   Call board0 GpioHardwareRevision 10494082,
                   Call board0 GpioTerminate 0,
                   Call board0 GpioInitialise 79, AtExit,
                   Call board0 GpioHardwareRevision 10494082]\<rparr>"
proof -
  let ?s1 = "\<lparr>firstTime = False, isrDone = - 1000, exitHook = True, hw = board0,
          log = [Call board0 GpioInitialise 79, AtExit, Call board0 GpioHardwareRevision 10494082]\<rparr>"
  let ?s2 = "\<lparr>firstTime = True, isrDone = - 1000, exitHook = True, hw = board0,
          log = [Call board0 GpioInitialise 79, AtExit, Call board0 GpioHardwareRevision 10494082,
                 Call board0 GpioTerminate 0]\<rparr>"
  let ?s3 = "\<lparr>firstTime = False, isrDone = - 1000, exitHook = True, hw = board0,
            log = [Call board0 GpioInitialise 79, AtExit,
                   Call board0 GpioHardwareRevision 10494082,
                   Call board0 GpioTerminate 0,
                   Call board0 GpioInitialise 79, AtExit]\<rparr>"
  have m1: "mexFunction demo 1 [] (loaded board0) = Some (Inr (Some 10494082), ?s1)"
    using mexFunction_revision [OF demo_init_ok] by (simp add: invoke_snd demo_simps)
  have x: "exitfunc demo ?s1 = ?s2"
    by (simp add: exitfunc_def invoke_snd demo_simps board0_def)
  have i: "init_stage demo ?s2 = Inr ?s3"
    by (simp add: init_stage_def invoke_def emit_def demo_simps board0_def)
  have m2: "mexFunction demo 1 [] ?s2 =
      Some (Inr (Some 10494082), ?s3\<lparr>log := log ?s3 @ [Call board0 GpioHardwareRevision 10494082]\<rparr>)"
    using mexFunction_revision [OF i] by (simp add: invoke_snd demo_simps)
  show ?thesis using m1 x m2 by simp
qed

text \<open>On the board, with no handler registered, the signal never leaves the sentinel.\<close>

lemma demo_unarmed_load:
  "armed (hw s) = None \<Longrightarrow> isrDone s = - 1000 \<Longrightarrow>
   load_isrDone demo s = (- 1000, emit (Load (- 1000)) s)"
  by (simp add: load_isrDone_def isrDeliver_def demo_simps Let_def)

lemma demo_unarmed_polls:
  "armed (hw s) = None \<Longrightarrow> isrDone s = - 1000 \<Longrightarrow> isrDone (polls demo n s) = - 1000"
  by (induction n arbitrary: s) (simp_all add: demo_unarmed_load emit_def)

lemma demo_unarmed_hangs:
  assumes "armed (hw s) = None" and "isrDone s = - 1000"
  shows "busy_wait demo s = None"
proof (cases "busy_wait demo s")
  case None
  then show ?thesis .
next
  case (Some y)
  from busy_wait_sound[OF Some] obtain n where "y = polls demo (Suc n) s" "isrDone y \<noteq> - 1000"
    by blast
  with demo_unarmed_polls[OF assms, of "Suc n"] show ?thesis by simp
qed

subsection \<open>Command 5: the edge wait\<close>

text \<open>
  Whatever the registration answered, a scalar returned by command 5 is 0 or 1.
\<close>

lemma edge_wait_result:
  assumes "mexFunction bk nlhs [5, pin, arg] s = Some (Inr (Some v), s')"
  shows "v = 0 \<or> v = 1"
proof (cases "init_stage bk s")
  case (Inl s0)
  with assms show ?thesis by (simp add: mexFunction_init_failed)
next
  case (Inr s0)
  with assms have d: "dispatch bk 5 (c_int pin) (c_int arg) s0 = Some (Inr (Some v), s')"
    by (simp add: mexFunction_dispatch)
  show ?thesis
  proof (cases "c_int arg < - 1")
    case True
    with d show ?thesis by (simp add: dispatch_timeout_missing)
  next
    case False
    then have "- 1 \<le> c_int arg" by simp
    from edge_wait_log[OF this d] show ?thesis by (auto split: if_splits)
  qed
qed

text \<open>
  C1 says that command 5 with a timeout returns one scalar: -1 when the registration
  of the handler failed, 0 after a timeout, 1 after an edge. The code does not do the
  first. On the board, pin 99 is refused: \<^verbatim>\<open>gpioSetISRFunc\<close> answers -3, line 182
  stores -1 in the result, and the call goes on into the busy wait; no handler is
  registered, the signal never leaves the sentinel, and the call never returns. Had
  the signal changed, line 193 would have overwritten the -1 (\<open>edge_wait_result\<close>).
\<close>

theorem edge_wait_failed_setup_hangs:
  "fst (gpioSetISRFunc demo 99 EITHER_EDGE 100 True board0) = - 3 \<and>
   mexFunction demo 1 [5, 99, 100] (loaded board0) = None"
proof -
  let ?s2 = "snd (invoke demo (GpioSetISRFunc 99 EITHER_EDGE 100 True)
       (emit (Store (- 1000))
          (\<lparr>firstTime = False, isrDone = - 1000, exitHook = True, hw = board0,
            log = [Call board0 GpioInitialise 79, AtExit]\<rparr>\<lparr>isrDone := - 1000\<rparr>)))"
  have "armed (hw ?s2) = None" "isrDone ?s2 = - 1000"
    by (simp_all add: invoke_snd emit_def demo_simps user_gpio_def board0_def)
  then have "busy_wait demo ?s2 = None" by (rule demo_unarmed_hangs)
  then have "mexFunction demo 1 [5, 99, 100] (loaded board0) = None"
    by (simp add: mexFunction_dispatch [OF demo_init_ok] dispatch_edge_wait)
  moreover have "fst (gpioSetISRFunc demo 99 EITHER_EDGE 100 True board0) = - 3"
    by (simp add: demo_simps user_gpio_def)
  ultimately show ?thesis by simp
qed




subsection \<open>Command 2: the PWM duty cycle\<close>

text \<open>
  C3 says that a duty above 1024 aborts before any backend call and that a duty from
  0 to 1024 reaches the duty-cycle call of the backend. On the board: the duty 1024.5
  is above 1024, yet the cast of line 123 makes it 1024 and \<^verbatim>\<open>gpioPWM(17, 1024)\<close> is
  called; the duty 1025 of a first call aborts, but after \<^verbatim>\<open>gpioInitialise\<close> has been
  called; and the duty 512 of a first call whose \<^verbatim>\<open>gpioInitialise\<close> fails never
  reaches the duty-cycle call.
\<close>

theorem pwm_duty_validation_counterexample:
  "mexFunction demo 0 [2, 17, 1024.5] (loaded board0) =
     Some (Inr None,
           \<lparr>firstTime = False, isrDone = - 1000, exitHook = True,
            hw = board0\<lparr>pwm_range := 1024, pwm_duty := 1024\<rparr>,
            log = [Call board0 GpioInitialise 79, AtExit,
                   Call board0 (GpioGetPWMrange 17) 255,
                   Call board0 (GpioSetPWMrange 17 1024) 1024,
                   Call (board0\<lparr>pwm_range := 1024\<rparr>) (GpioPWM 17 1024) 0]\<rparr>) \<and>
   mexFunction demo 0 [2, 17, 1025] (loaded board0) =
     Some (Inl PwmInvalid,
           \<lparr>firstTime = False, isrDone = - 1000, exitHook = True, hw = board0,
            log = [Call board0 GpioInitialise 79, AtExit]\<rparr>) \<and>
   mexFunction demo 0 [2, 17, 512] (loaded (board0\<lparr>init_rc := - 1\<rparr>)) =
     Some (Inl InitFailed,
           \<lparr>firstTime = True, isrDone = - 1000, exitHook = False, hw = board0\<lparr>init_rc := - 1\<rparr>,
            log = [Call (board0\<lparr>init_rc := - 1\<rparr>) GpioInitialise (- 1)]\<rparr>)"
proof -
  have u: "user_gpio 17" by (simp add: user_gpio_def)
  have r: "pwm_range board0 = 255" by (simp add: board0_def)
  have "mexFunction demo 0 [2, 17, 1024.5] (loaded board0) =
     Some (Inr None,
           \<lparr>firstTime = False, isrDone = - 1000, exitHook = True,
            hw = board0\<lparr>pwm_range := 1024, pwm_duty := 1024\<rparr>,
            log = [Call board0 GpioInitialise 79, AtExit,
                   Call board0 (GpioGetPWMrange 17) 255,
                   Call board0 (GpioSetPWMrange 17 1024) 1024,
                   Call (board0\<lparr>pwm_range := 1024\<rparr>) (GpioPWM 17 1024) 0]\<rparr>)"
    by (simp add: mexFunction_dispatch [OF demo_init_ok] c_int_fractions dispatch_pwm Let_def
        invoke_snd demo_simps u r)
  moreover have "mexFunction demo 0 [2, 17, 1025] (loaded board0) =
     Some (Inl PwmInvalid,
           \<lparr>firstTime = False, isrDone = - 1000, exitHook = True, hw = board0,
            log = [Call board0 GpioInitialise 79, AtExit]\<rparr>)"
    by (simp add: mexFunction_dispatch [OF demo_init_ok] dispatch_pwm)
  moreover note mexFunction_init_failed [OF demo_init_fails, of 0 "[2, 17, 512]"]
  ultimately show ?thesis by simp
qed

text \<open>
  C3, with its conditions. Let \<open>p\<close> and \<open>d\<close> be the integer parts of the pin and of
  the duty. When the lazy initialisation has passed and left the state \<open>s0\<close>: a duty of
  1025 or more aborts in \<open>s0\<close> itself, so the switch has made no backend call; a duty
  above -1 and below 1025 passes both tests of lines 142 and 145, the code queries the
  range, sets it to 1024 if it differs, and calls \<^verbatim>\<open>gpioPWM(p, d)\<close> of the backend in the
  hardware state these calls have left; the call aborts afterwards exactly when
  \<^verbatim>\<open>gpioPWM\<close> answered a negative code. When the lazy initialisation fails, the call
  aborts with its error.
\<close>

theorem pwm_duty_validation:
  fixes bk :: "'h backend" and pin duty :: real
  defines "p \<equiv> c_int pin" and "d \<equiv> c_int duty"
  shows
  "(init_stage bk s = Inr s0 \<longrightarrow>
      (1025 \<le> duty \<longrightarrow> mexFunction bk nlhs [2, pin, duty] s = Some (Inl PwmInvalid, s0)) \<and>
      (- 1 < duty \<and> duty < 1025 \<longrightarrow>
         mexFunction bk nlhs [2, pin, duty] s =
           Some (if fst (gpioPWM bk p d (ranged_hw bk p (hw s0))) < 0
                 then Inl PwmFailed else Inr None,
                 s0\<lparr>hw := snd (gpioPWM bk p d (ranged_hw bk p (hw s0))),
                    log := log s0 @
                      Call (hw s0) (GpioGetPWMrange p) (gpioGetPWMrange bk p (hw s0)) #
                      (if gpioGetPWMrange bk p (hw s0) \<noteq> 1024
                       then [Call (hw s0) (GpioSetPWMrange p 1024)
                               (fst (gpioSetPWMrange bk p 1024 (hw s0)))]
                       else []) @
                      [Call (ranged_hw bk p (hw s0)) (GpioPWM p d)
                         (fst (gpioPWM bk p d (ranged_hw bk p (hw s0))))]\<rparr>))) \<and>
   (init_stage bk s = Inl s0 \<longrightarrow>
      mexFunction bk nlhs [2, pin, duty] s = Some (Inl InitFailed, s0))"
proof (intro conjI impI)
  assume i: "init_stage bk s = Inr s0"
  {
    assume "1025 \<le> duty"
    then have "1024 < c_int duty" "\<not> c_int duty < 0"
      by (simp_all add: c_int_greater_1024 c_int_less_0)
    with i show "mexFunction bk nlhs [2, pin, duty] s = Some (Inl PwmInvalid, s0)"
      by (simp add: mexFunction_dispatch dispatch_pwm)
  }
  {
    assume "- 1 < duty \<and> duty < 1025"
    then have "\<not> 1024 < c_int duty" "\<not> c_int duty < 0"
      by (simp_all add: c_int_greater_1024 c_int_less_0)
    with i show "mexFunction bk nlhs [2, pin, duty] s =
           Some (if fst (gpioPWM bk p d (ranged_hw bk p (hw s0))) < 0
                 then Inl PwmFailed else Inr None,
                 s0\<lparr>hw := snd (gpioPWM bk p d (ranged_hw bk p (hw s0))),
                    log := log s0 @
                      Call (hw s0) (GpioGetPWMrange p) (gpioGetPWMrange bk p (hw s0)) #
                      (if gpioGetPWMrange bk p (hw s0) \<noteq> 1024
                       then [Call (hw s0) (GpioSetPWMrange p 1024)
                               (fst (gpioSetPWMrange bk p 1024 (hw s0)))]
                       else []) @
                      [Call (ranged_hw bk p (hw s0)) (GpioPWM p d)
                         (fst (gpioPWM bk p d (ranged_hw bk p (hw s0))))]\<rparr>)"
      unfolding p_def d_def
      by (simp add: mexFunction_dispatch dispatch_pwm Let_def invoke_snd ranged_hw_def)
  }
next
  assume "init_stage bk s = Inl s0"
  then show "mexFunction bk nlhs [2, pin, duty] s = Some (Inl InitFailed, s0)"
    by (rule mexFunction_init_failed)
qed

theorem pwm_duty_validation_witness:
  "init_stage demo (loaded board0) =
     Inr \<lparr>firstTime = False, isrDone = - 1000, exitHook = True, hw = board0,
          log = [Call board0 GpioInitialise 79, AtExit]\<rparr> \<and>
   (1025 :: real) \<le> 1025 \<and>
   mexFunction demo 0 [2, 17, 1025] (loaded board0) =
     Some (Inl PwmInvalid,
           \<lparr>firstTime = False, isrDone = - 1000, exitHook = True, hw = board0,
            log = [Call board0 GpioInitialise 79, AtExit]\<rparr>) \<and>
   (- 1 :: real) < 1024 \<and> (1024 :: real) < 1025 \<and>
   mexFunction demo 0 [2, 17, 1024] (loaded board0) =
     Some (Inr None,
           \<lparr>firstTime = False, isrDone = - 1000, exitHook = True,
            hw = board0\<lparr>pwm_range := 1024, pwm_duty := 1024\<rparr>,
            log = [Call board0 GpioInitialise 79, AtExit,
                   Call board0 (GpioGetPWMrange 17) 255,
                   Call board0 (GpioSetPWMrange 17 1024) 1024,
                   Call (board0\<lparr>pwm_range := 1024\<rparr>) (GpioPWM 17 1024) 0]\<rparr>) \<and>
   init_stage demo (loaded (board0\<lparr>init_rc := - 1\<rparr>)) =
     Inl \<lparr>firstTime = True, isrDone = - 1000, exitHook = False, hw = board0\<lparr>init_rc := - 1\<rparr>,
          log = [Call (board0\<lparr>init_rc := - 1\<rparr>) GpioInitialise (- 1)]\<rparr> \<and>
   mexFunction demo 0 [2, 17, 1024] (loaded (board0\<lparr>init_rc := - 1\<rparr>)) =
     Some (Inl InitFailed,
           \<lparr>firstTime = True, isrDone = - 1000, exitHook = False, hw = board0\<lparr>init_rc := - 1\<rparr>,
            log = [Call (board0\<lparr>init_rc := - 1\<rparr>) GpioInitialise (- 1)]\<rparr>)"
proof -
  have u: "user_gpio 17" by (simp add: user_gpio_def)
  have r: "pwm_range board0 = 255" by (simp add: board0_def)
  from pwm_duty_validation [where bk = demo and s = "loaded board0" and duty = 1025 and pin = 17
      and nlhs = 0]
    pwm_duty_validation [where bk = demo and s = "loaded board0" and duty = 1024 and pin = 17
      and nlhs = 0]
    pwm_duty_validation [where bk = demo and s = "loaded (board0\<lparr>init_rc := - 1\<rparr>)"
      and duty = 1024 and pin = 17 and nlhs = 0]
    demo_init_ok demo_init_fails u r
  show ?thesis by (simp add: demo_simps ranged_hw_def)
qed

subsection \<open>When a call aborts\<close>

text \<open>
  C4 lists the causes of a fatal abort and says there are no others. There is one
  more: on the board, command 1 with the level -1 supplied aborts with the error of a
  missing level, although the subsystem is initialised, the third argument is there,
  the command is not command 2 and its code is known.
\<close>

theorem abort_causes_counterexample:
  "mexFunction demo 0 [1, 17, - 1] (loaded board0) =
     Some (Inl LevelMissing,
           \<lparr>firstTime = False, isrDone = - 1000, exitHook = True, hw = board0,
            log = [Call board0 GpioInitialise 79, AtExit]\<rparr>) \<and>
   \<not> spec_abort_causes demo [1, 17, - 1] (loaded board0)"
proof -
  have "mexFunction demo 0 [1, 17, - 1] (loaded board0) =
     Some (Inl LevelMissing,
           \<lparr>firstTime = False, isrDone = - 1000, exitHook = True, hw = board0,
            log = [Call board0 GpioInitialise 79, AtExit]\<rparr>)"
    by (simp add: mexFunction_dispatch [OF demo_init_ok] dispatch_write)
  moreover have "\<not> init_fails demo (loaded board0)"
    by (simp add: init_fails_def loaded_def demo_simps board0_def)
  then have "\<not> spec_abort_causes demo [1, 17, - 1] (loaded board0)"
    by (simp add: spec_abort_causes_def)
  ultimately show ?thesis by simp
qed

text \<open>
  C4, with the causes the code has. For every backend, every state and every list of
  arguments, the call aborts exactly when \<open>abort_causes\<close> holds: the initialisation
  fails; or, with at least two arguments, the third argument is missing or is -1 or
  less for the commands 1 to 3, is missing or is -2 or less for the commands 4 and 5,
  the duty of command 2 is 1025 or more, the duty-cycle call of the backend answers a
  negative code, or the command code is -1 or less or 6 or more. Command codes count by
  their integer part. So nothing else aborts the call, whatever the backend answers to
  a read, a write, a mode, a pull-resistor, a range or a registration call; and what
  \<^verbatim>\<open>gpioRead\<close> of the backend answers is the scalar that command 0 returns.
\<close>

theorem abort_exactly_when:
  "((\<exists>e s'. mexFunction bk nlhs prhs s = Some (Inl e, s')) \<longleftrightarrow> abort_causes bk prhs s) \<and>
   (2 \<le> length prhs \<and> c_int (prhs ! 0) = 0 \<and> \<not> init_fails bk s \<longrightarrow>
      (\<exists>s'. mexFunction bk nlhs prhs s =
               Some (Inr (Some (fst (gpioRead bk (c_int (prhs ! 1)) (ready_hw bk s)))), s') \<and>
            hw s' = snd (gpioRead bk (c_int (prhs ! 1)) (ready_hw bk s))))"
proof (cases "init_stage bk s")
  case (Inl s0)
  then have "init_fails bk s" by (auto simp: init_stage_fails)
  with Inl show ?thesis by (simp add: mexFunction_init_failed abort_causes_def)
next
  case (Inr s0)
  then have nf: "\<not> init_fails bk s" by (simp add: init_stage_fails)
  from Inr have h: "hw s0 = ready_hw bk s" by (simp add: init_stage_hw)
  consider "length prhs = 0" "nlhs = 1" | "length prhs < 2" "\<not> (length prhs = 0 \<and> nlhs = 1)"
    | "2 \<le> length prhs" by linarith
  then show ?thesis
  proof cases
    case 1
    with mexFunction_revision[OF Inr] nf show ?thesis by (simp add: abort_causes_def)
  next
    case 2
    with mexFunction_usage[OF Inr, of prhs nlhs] nf show ?thesis
      by (simp add: abort_causes_def)
  next
    case 3
    let ?arg = "if 2 < length prhs then c_int (prhs ! 2) else - 1000"
    have d: "mexFunction bk nlhs prhs s = dispatch bk (c_int (prhs ! 0)) (c_int (prhs ! 1)) ?arg s0"
      using Inr 3 by (rule mexFunction_dispatch)
    have a: "(\<exists>e s'. mexFunction bk nlhs prhs s = Some (Inl e, s')) \<longleftrightarrow> abort_causes bk prhs s"
    proof (cases "2 < length prhs")
      case True
      then have l: "3 \<le> length prhs" "\<not> length prhs < 3" by simp_all
      show ?thesis
        unfolding d dispatch_aborts abort_causes_def pwm_fails_def h
        using nf 3 True l
        by (simp add: c_int_less_0 c_int_less_m1 c_int_greater_1024 c_int_nonneg c_int_le_1024
            c_int_unknown del: insert_iff)
    next
      case False
      with 3 have l: "length prhs < 3" "\<not> 3 \<le> length prhs" by simp_all
      show ?thesis
        unfolding d dispatch_aborts abort_causes_def pwm_fails_def h
        using nf 3 False l
        by (simp add: c_int_unknown del: insert_iff)
    qed
    have b: "\<exists>s'. mexFunction bk nlhs prhs s =
               Some (Inr (Some (fst (gpioRead bk (c_int (prhs ! 1)) (ready_hw bk s)))), s') \<and>
            hw s' = snd (gpioRead bk (c_int (prhs ! 1)) (ready_hw bk s))"
      if "c_int (prhs ! 0) = 0"
      unfolding d that by (simp add: dispatch_read invoke_snd h)
    from a b show ?thesis by blast
  qed
qed

theorem abort_exactly_when_witness:
  "2 \<le> length [0, 40 :: real] \<and> c_int ([0, 40 :: real] ! 0) = 0 \<and>
   \<not> init_fails demo (loaded board0) \<and>
   abort_causes demo [1, 17, - 1] (loaded board0) \<and>
   (\<exists>e s'. mexFunction demo 0 [1, 17, - 1] (loaded board0) = Some (Inl e, s')) \<and>
   (\<exists>s'. mexFunction demo 0 [0, 40] (loaded board0) = Some (Inr (Some (- 3)), s') \<and>
         hw s' = board0)"
proof -
  have nf: "\<not> init_fails demo (loaded board0)"
    by (simp add: init_fails_def loaded_def demo_simps board0_def)
  have c: "abort_causes demo [1, 17, - 1] (loaded board0)"
    by (simp add: abort_causes_def)
  have r: "ready_hw demo (loaded board0) = board0"
    by (simp add: ready_hw_def loaded_def demo_simps)
  have u: "\<not> user_gpio 40" by (simp add: user_gpio_def)
  from abort_exactly_when [of demo 0 "[1, 17, - 1]" "loaded board0"]
    abort_exactly_when [of demo 0 "[0, 40]" "loaded board0"] nf c r u
  show ?thesis by (simp add: demo_simps)
qed

subsection \<open>Unknown command codes\<close>




subsection \<open>The life cycle\<close>

text \<open>
  One call: \<^verbatim>\<open>gpioInitialise\<close> succeeds in it exactly when it clears \<^verbatim>\<open>firstTime\<close>.
\<close>

lemma mexFunction_inits:
  assumes "mexFunction bk nlhs prhs s = Some (r, s')"
  shows "\<exists>evs. log s' = log s @ evs \<and>
           successful_inits evs = (if firstTime s \<and> \<not> firstTime s' then 1 else 0) \<and>
           (\<not> firstTime s \<longrightarrow> \<not> firstTime s' \<and> GpioInitialise \<notin> set (calls_of evs))"
proof (cases "init_stage bk s")
  case (Inl s0)
  with assms have "s' = s0" by (simp add: mexFunction_init_failed)
  with init_stage_Inl[OF Inl] show ?thesis by simp
next
  case (Inr s0)
  from init_stage_Inr[OF Inr] obtain pre where pre: "log s0 = log s @ pre" "\<not> firstTime s0"
    "successful_inits pre = (if firstTime s then 1 else 0)"
    "\<not> firstTime s \<longrightarrow> pre = []"
    by (cases "firstTime s") auto
  consider "length prhs = 0" "nlhs = 1" | "length prhs < 2" "\<not> (length prhs = 0 \<and> nlhs = 1)"
    | "2 \<le> length prhs" by linarith
  then show ?thesis
  proof cases
    case 1
    with assms mexFunction_revision[OF Inr] pre show ?thesis
      by (auto simp: invoke_snd successful_inits_append)
  next
    case 2
    with assms mexFunction_usage[OF Inr, of prhs nlhs] pre show ?thesis
      by (auto simp: emit_def successful_inits_append)
  next
    case 3
    with assms Inr have "dispatch bk (c_int (prhs ! 0)) (c_int (prhs ! 1))
        (if 2 < length prhs then c_int (prhs ! 2) else - 1000) s0 = Some (r, s')"
      by (simp add: mexFunction_dispatch)
    from dispatch_no_init[OF this] obtain evs where "firstTime s' = firstTime s0"
      "log s' = log s0 @ evs" "GpioInitialise \<notin> set (calls_of evs)" "successful_inits evs = 0"
      by blast
    with pre show ?thesis by (auto simp: successful_inits_append)
  qed
qed

lemma run_inits:
  "run bk as s = Some s'' \<Longrightarrow>
   \<exists>evs. log s'' = log s @ evs \<and>
     successful_inits evs \<le> (if firstTime s then 1 else 0) + terminations evs"
proof (induction as arbitrary: s)
  case Nil
  then show ?case by simp
next
  case (Cons a as)
  show ?case
  proof (cases a)
    case (Invoke nlhs prhs)
    with Cons.prems obtain r s1 where m: "mexFunction bk nlhs prhs s = Some (r, s1)"
      and rest: "run bk as s1 = Some s''"
      by (auto split: option.splits)
    from mexFunction_inits[OF m] obtain e1 where e1: "log s1 = log s @ e1"
      "successful_inits e1 = (if firstTime s \<and> \<not> firstTime s1 then 1 else 0)"
      "\<not> firstTime s \<longrightarrow> \<not> firstTime s1" by blast
    from Cons.IH[OF rest] obtain e2 where e2: "log s'' = log s1 @ e2"
      "successful_inits e2 \<le> (if firstTime s1 then 1 else 0) + terminations e2" by blast
    from e1 e2 have "log s'' = log s @ (e1 @ e2) \<and>
        successful_inits (e1 @ e2) \<le> (if firstTime s then 1 else 0) + terminations (e1 @ e2)"
      by (auto simp: successful_inits_append terminations_append split: if_splits)
    then show ?thesis by blast
  next
    case Flush
    show ?thesis
    proof (cases "exitHook s")
      case True
      with Flush Cons.prems have rest: "run bk as (exitfunc bk s) = Some s''" by simp
      from Cons.IH[OF rest] obtain e2 where e2: "log s'' = log (exitfunc bk s) @ e2"
        "successful_inits e2 \<le> (if firstTime (exitfunc bk s) then 1 else 0) + terminations e2"
        by blast
      have e1: "log (exitfunc bk s) = log s @ [Call (hw s) GpioTerminate 0]"
        by (simp add: exitfunc_def invoke_snd)
      from e1 e2 have "log s'' = log s @ ([Call (hw s) GpioTerminate 0] @ e2) \<and>
          successful_inits ([Call (hw s) GpioTerminate 0] @ e2)
            \<le> (if firstTime s then 1 else 0) + terminations ([Call (hw s) GpioTerminate 0] @ e2)"
        by (auto split: if_splits)
      then show ?thesis by blast
    next
      case False
      with Flush Cons.prems have "run bk as s = Some s''" by simp
      from Cons.IH[OF this] show ?thesis .
    qed
  qed
qed

text \<open>
  C6 says that the subsystem is initialised at most once per process. The exit hook
  is registered to run when the MEX file is flushed, which happens inside a process; it
  sets \<^verbatim>\<open>firstTime\<close> again, and the next call initialises the subsystem a second time.
  On the board, a call, a flush and a call give two successful \<^verbatim>\<open>gpioInitialise\<close>.
\<close>

theorem initialised_once_counterexample:
  "run demo [Invoke 1 [], Flush, Invoke 1 []] (loaded board0) =
     Some \<lparr>firstTime = False, isrDone = - 1000, exitHook = True, hw = board0,
            log = [Call board0 GpioInitialise 79, AtExit,
                   Call board0 GpioHardwareRevision 10494082,
                   Call board0 GpioTerminate 0,
                   Call board0 GpioInitialise 79, AtExit,
                   Call board0 GpioHardwareRevision 10494082]\<rparr> \<and>
   successful_inits
     [Call board0 GpioInitialise 79, AtExit,
      Call board0 GpioHardwareRevision 10494082,
      Call board0 GpioTerminate 0,
      Call board0 GpioInitialise 79, AtExit,
      Call board0 GpioHardwareRevision 10494082] = 2"
  using demo_session by simp

text \<open>
  C6, between two runs of the exit hook. The flag of the source is \<^verbatim>\<open>firstTime\<close>, the
  negation of the flag the claim speaks of. A first call whose \<^verbatim>\<open>gpioInitialise\<close> succeeds clears the
  flag and registers the exit hook; a call made while the flag is clear leaves it clear
  and does not call \<^verbatim>\<open>gpioInitialise\<close>; the exit hook calls \<^verbatim>\<open>gpioTerminate\<close> and sets
  the flag again; and in every session of calls and flushes the number of successful
  initialisations is at most the number of terminations plus one.
\<close>

theorem initialised_once:
  "(firstTime s \<and> 0 \<le> fst (gpioInitialise bk (hw s)) \<longrightarrow>
      (\<exists>s0. init_stage bk s = Inr s0 \<and> \<not> firstTime s0 \<and> exitHook s0 \<and>
            new_events s s0 = [Call (hw s) GpioInitialise (fst (gpioInitialise bk (hw s))), AtExit])) \<and>
   (\<not> firstTime t \<and> mexFunction bk nlhs prhs t = Some (r, t') \<longrightarrow>
      \<not> firstTime t' \<and> GpioInitialise \<notin> set (calls_of (new_events t t'))) \<and>
   (firstTime (exitfunc bk u) \<and> hw (exitfunc bk u) = gpioTerminate bk (hw u) \<and>
    new_events u (exitfunc bk u) = [Call (hw u) GpioTerminate 0]) \<and>
   (run bk as v = Some v' \<longrightarrow>
      successful_inits (new_events v v')
        \<le> (if firstTime v then 1 else 0) + terminations (new_events v v'))"
proof (intro conjI impI)
  assume a: "firstTime s \<and> 0 \<le> fst (gpioInitialise bk (hw s))"
  then obtain s0 where i: "init_stage bk s = Inr s0"
    by (auto simp: init_stage_def invoke_eq split: prod.splits)
  from init_stage_Inr[OF i] a i
  show "\<exists>s0. init_stage bk s = Inr s0 \<and> \<not> firstTime s0 \<and> exitHook s0 \<and>
            new_events s s0 = [Call (hw s) GpioInitialise (fst (gpioInitialise bk (hw s))), AtExit]"
    by (simp add: new_events_def)
next
  assume a: "\<not> firstTime t \<and> mexFunction bk nlhs prhs t = Some (r, t')"
  then have m: "mexFunction bk nlhs prhs t = Some (r, t')" by simp
  from mexFunction_inits[OF m] a show "\<not> firstTime t'"
    and "GpioInitialise \<notin> set (calls_of (new_events t t'))"
    by (auto simp: new_events_def)
next
  show "firstTime (exitfunc bk u)" by (simp add: exitfunc_def)
  show "hw (exitfunc bk u) = gpioTerminate bk (hw u)" by (simp add: exitfunc_def invoke_snd)
  show "new_events u (exitfunc bk u) = [Call (hw u) GpioTerminate 0]"
    by (simp add: exitfunc_def invoke_snd new_events_def)
next
  assume "run bk as v = Some v'"
  from run_inits[OF this]
  show "successful_inits (new_events v v')
          \<le> (if firstTime v then 1 else 0) + terminations (new_events v v')"
    by (auto simp: new_events_def)
qed

theorem initialised_once_witness:
  "(firstTime (loaded board0) \<and> 0 \<le> fst (gpioInitialise demo (hw (loaded board0)))) \<and>
   (\<not> firstTime \<lparr>firstTime = False, isrDone = - 1000, exitHook = True, hw = board0,
                  log = [Call board0 GpioInitialise 79, AtExit]\<rparr> \<and>
    mexFunction demo 0 [0, 17]
       \<lparr>firstTime = False, isrDone = - 1000, exitHook = True, hw = board0,
         log = [Call board0 GpioInitialise 79, AtExit]\<rparr> =
      Some (Inr (Some 0),
            \<lparr>firstTime = False, isrDone = - 1000, exitHook = True, hw = board0,
              log = [Call board0 GpioInitialise 79, AtExit, Call board0 (GpioRead 17) 0]\<rparr>)) \<and>
   run demo [Invoke 1 [], Flush, Invoke 1 []] (loaded board0) =
     Some \<lparr>firstTime = False, isrDone = - 1000, exitHook = True, hw = board0,
            log = [Call board0 GpioInitialise 79, AtExit,
                   Call board0 GpioHardwareRevision 10494082,
                   Call board0 GpioTerminate 0,
                   Call board0 GpioInitialise 79, AtExit,
                   Call board0 GpioHardwareRevision 10494082]\<rparr> \<and>
   (\<exists>s0. init_stage demo (loaded board0) = Inr s0 \<and> \<not> firstTime s0 \<and> exitHook s0 \<and>
         new_events (loaded board0) s0 = [Call board0 GpioInitialise 79, AtExit]) \<and>
   GpioInitialise \<notin> set (calls_of (new_events
       \<lparr>firstTime = False, isrDone = - 1000, exitHook = True, hw = board0,
         log = [Call board0 GpioInitialise 79, AtExit]\<rparr>
       \<lparr>firstTime = False, isrDone = - 1000, exitHook = True, hw = board0,
         log = [Call board0 GpioInitialise 79, AtExit, Call board0 (GpioRead 17) 0]\<rparr>)) \<and>
   firstTime (exitfunc demo \<lparr>firstTime = False, isrDone = - 1000, exitHook = True, hw = board0,
                  log = [Call board0 GpioInitialise 79, AtExit]\<rparr>) \<and>
   successful_inits (new_events (loaded board0)
      \<lparr>firstTime = False, isrDone = - 1000, exitHook = True, hw = board0,
            log = [Call board0 GpioInitialise 79, AtExit,
                   Call board0 GpioHardwareRevision 10494082,
                   Call board0 GpioTerminate 0,
                   Call board0 GpioInitialise 79, AtExit,
                   Call board0 GpioHardwareRevision 10494082]\<rparr>)
     \<le> 1 + terminations (new_events (loaded board0)
      \<lparr>firstTime = False, isrDone = - 1000, exitHook = True, hw = board0,
            log = [Call board0 GpioInitialise 79, AtExit,
                   Call board0 GpioHardwareRevision 10494082,
                   Call board0 GpioTerminate 0,
                   Call board0 GpioInitialise 79, AtExit,
                   Call board0 GpioHardwareRevision 10494082]\<rparr>)"
proof -
  let ?s0 = "\<lparr>firstTime = False, isrDone = - 1000, exitHook = True, hw = board0,
                  log = [Call board0 GpioInitialise 79, AtExit]\<rparr>"
  let ?s1 = "\<lparr>firstTime = False, isrDone = - 1000, exitHook = True, hw = board0,
              log = [Call board0 GpioInitialise 79, AtExit, Call board0 (GpioRead 17) 0]\<rparr>"
  let ?s2 = "\<lparr>firstTime = False, isrDone = - 1000, exitHook = True, hw = board0,
            log = [Call board0 GpioInitialise 79, AtExit,
                   Call board0 GpioHardwareRevision 10494082,
                   Call board0 GpioTerminate 0,
                   Call board0 GpioInitialise 79, AtExit,
                   Call board0 GpioHardwareRevision 10494082]\<rparr>"
  have f: "firstTime (loaded board0)" "hw (loaded board0) = board0" by (simp_all add: loaded_def)
  have g: "fst (gpioInitialise demo board0) = 79" by (simp add: demo_simps board0_def)
  have l: "pin_level board0 = 0" by (simp add: board0_def)
  have m: "mexFunction demo 0 [0, 17] ?s0 = Some (Inr (Some 0), ?s1)"
    by (simp add: mexFunction_dispatch [OF init_stage_skip] dispatch_read invoke_snd demo_simps
        user_gpio_def l)
  from initialised_once [of "loaded board0" demo ?s0 0 "[0, 17]" "Inr (Some 0)" ?s1 ?s0
      "[Invoke 1 [], Flush, Invoke 1 []]" "loaded board0" ?s2] f g m demo_session
  show ?thesis by simp
qed

subsection \<open>Command 4: the pull resistor\<close>

text \<open>
  C7 says that command 4 with an argument among -1, 0, 1 makes exactly one
  pull-resistor call. On the board, a first call whose \<^verbatim>\<open>gpioInitialise\<close> fails aborts
  at line 64 and the pull-resistor call is never made.
\<close>

theorem pull_resistor_call_counterexample:
  "mexFunction demo 0 [4, 17, 1] (loaded (board0\<lparr>init_rc := - 1\<rparr>)) =
     Some (Inl InitFailed,
           \<lparr>firstTime = True, isrDone = - 1000, exitHook = False, hw = board0\<lparr>init_rc := - 1\<rparr>,
            log = [Call (board0\<lparr>init_rc := - 1\<rparr>) GpioInitialise (- 1)]\<rparr>)"
  by (rule mexFunction_init_failed [OF demo_init_fails])

text \<open>
  C7, with its condition. Let \<open>p\<close> be the integer part of the pin. When the lazy
  initialisation has passed and left the state \<open>s0\<close>, command 4 with the argument -1, 0
  or 1 returns no scalar, and what it has done is one call of
  \<^verbatim>\<open>gpioSetPullUpDown\<close> of the backend on \<open>p\<close>, with pull-down for -1, no resistor for 0
  and pull-up for 1: the hardware is what that call makes of the hardware of \<open>s0\<close>, and
  the log has this one call more, with the code it answered. Without the argument the
  call aborts in \<open>s0\<close>. When the lazy initialisation fails, both calls abort with its
  error.
\<close>

theorem pull_resistor_call:
  fixes bk :: "'h backend" and pin arg :: real
  defines "p \<equiv> c_int pin"
    and "m \<equiv> (if arg = - 1 then PI_PUD_DOWN else if arg = 0 then PI_PUD_OFF else PI_PUD_UP)"
  shows
  "(init_stage bk s = Inr s0 \<longrightarrow>
      (arg \<in> {- 1, 0, 1} \<longrightarrow>
         mexFunction bk nlhs [4, pin, arg] s =
           Some (Inr None,
                 s0\<lparr>hw := snd (gpioSetPullUpDown bk p m (hw s0)),
                    log := log s0 @
                      [Call (hw s0) (GpioSetPullUpDown p m)
                         (fst (gpioSetPullUpDown bk p m (hw s0)))]\<rparr>)) \<and>
      mexFunction bk nlhs [4, pin] s = Some (Inl PullMissing, s0)) \<and>
   (init_stage bk s = Inl s0 \<longrightarrow>
      mexFunction bk nlhs [4, pin, arg] s = Some (Inl InitFailed, s0) \<and>
      mexFunction bk nlhs [4, pin] s = Some (Inl InitFailed, s0))"
  unfolding p_def m_def
  by (auto simp: mexFunction_dispatch mexFunction_init_failed dispatch_pull invoke_snd)

theorem pull_resistor_call_witness:
  "init_stage demo (loaded board0) =
     Inr \<lparr>firstTime = False, isrDone = - 1000, exitHook = True, hw = board0,
          log = [Call board0 GpioInitialise 79, AtExit]\<rparr> \<and>
   (- 1 :: real) \<in> {- 1, 0, 1} \<and>
   mexFunction demo 0 [4, 17, - 1] (loaded board0) =
     Some (Inr None,
           \<lparr>firstTime = False, isrDone = - 1000, exitHook = True, hw = board0,
            log = [Call board0 GpioInitialise 79, AtExit,
                   Call board0 (GpioSetPullUpDown 17 PI_PUD_DOWN) 0]\<rparr>) \<and>
   mexFunction demo 0 [4, 17] (loaded board0) =
     Some (Inl PullMissing,
           \<lparr>firstTime = False, isrDone = - 1000, exitHook = True, hw = board0,
            log = [Call board0 GpioInitialise 79, AtExit]\<rparr>) \<and>
   init_stage demo (loaded (board0\<lparr>init_rc := - 1\<rparr>)) =
     Inl \<lparr>firstTime = True, isrDone = - 1000, exitHook = False, hw = board0\<lparr>init_rc := - 1\<rparr>,
          log = [Call (board0\<lparr>init_rc := - 1\<rparr>) GpioInitialise (- 1)]\<rparr> \<and>
   mexFunction demo 0 [4, 17] (loaded (board0\<lparr>init_rc := - 1\<rparr>)) =
     Some (Inl InitFailed,
           \<lparr>firstTime = True, isrDone = - 1000, exitHook = False, hw = board0\<lparr>init_rc := - 1\<rparr>,
            log = [Call (board0\<lparr>init_rc := - 1\<rparr>) GpioInitialise (- 1)]\<rparr>)"
proof -
  have u: "user_gpio 17" by (simp add: user_gpio_def)
  from pull_resistor_call [where bk = demo and s = "loaded board0" and arg = "- 1" and pin = 17
      and nlhs = 0]
    pull_resistor_call [where bk = demo and s = "loaded (board0\<lparr>init_rc := - 1\<rparr>)"
      and arg = "- 1" and pin = 17 and nlhs = 0]
    demo_init_ok demo_init_fails u
  show ?thesis by (simp add: demo_simps)
qed

subsection \<open>The revision query\<close>

text \<open>
  C8 says that every call with no argument and one output returns the revision. A
  first call whose \<^verbatim>\<open>gpioInitialise\<close> fails aborts at line 64 instead.
\<close>

theorem revision_query_counterexample:
  "mexFunction demo 1 [] (loaded (board0\<lparr>init_rc := - 1\<rparr>)) =
     Some (Inl InitFailed,
           \<lparr>firstTime = True, isrDone = - 1000, exitHook = False, hw = board0\<lparr>init_rc := - 1\<rparr>,
            log = [Call (board0\<lparr>init_rc := - 1\<rparr>) GpioInitialise (- 1)]\<rparr>)"
  by (simp add: mexFunction_def demo_init_fails)

text \<open>
  C8, with its condition. When the lazy initialisation has passed, the call with no
  argument and one output returns one scalar, the value of \<^verbatim>\<open>gpioHardwareRevision\<close> read
  as an unsigned number, so a non-negative one; apart from the \<^verbatim>\<open>gpioInitialise\<close> of a
  first call the revision query is its only backend call. When the lazy initialisation
  fails, the call aborts with its error.
\<close>

theorem revision_query:
  "(init_stage bk s = Inr s0 \<longrightarrow>
      (\<exists>v s'. mexFunction bk 1 [] s = Some (Inr (Some v), s') \<and>
          v = uint (gpioHardwareRevision bk (hw s0)) \<and> 0 \<le> v \<and>
          calls_of (new_events s0 s') = [GpioHardwareRevision] \<and>
          calls_of (new_events s s') =
            (if firstTime s then [GpioInitialise, GpioHardwareRevision] else [GpioHardwareRevision]))) \<and>
   (init_stage bk s = Inl s0 \<longrightarrow> mexFunction bk 1 [] s = Some (Inl InitFailed, s0))"
proof (intro conjI impI)
  assume i: "init_stage bk s = Inr s0"
  let ?v = "uint (gpioHardwareRevision bk (hw s0))"
  let ?s' = "s0\<lparr>log := log s0 @ [Call (hw s0) GpioHardwareRevision ?v]\<rparr>"
  from i have m: "mexFunction bk 1 [] s = Some (Inr (Some ?v), ?s')"
    by (simp add: mexFunction_def invoke_def)
  from init_stage_Inr[OF i] have "calls_of (new_events s ?s') =
      (if firstTime s then [GpioInitialise, GpioHardwareRevision] else [GpioHardwareRevision])"
    by (simp add: new_events_def)
  moreover have "calls_of (new_events s0 ?s') = [GpioHardwareRevision]"
    by (simp add: new_events_def)
  ultimately show "\<exists>v s'. mexFunction bk 1 [] s = Some (Inr (Some v), s') \<and>
          v = uint (gpioHardwareRevision bk (hw s0)) \<and> 0 \<le> v \<and>
          calls_of (new_events s0 s') = [GpioHardwareRevision] \<and>
          calls_of (new_events s s') =
            (if firstTime s then [GpioInitialise, GpioHardwareRevision] else [GpioHardwareRevision])"
    using m by simp
next
  assume "init_stage bk s = Inl s0"
  then show "mexFunction bk 1 [] s = Some (Inl InitFailed, s0)"
    by (rule mexFunction_init_failed)
qed

theorem revision_query_witness:
  "init_stage demo (loaded board0) =
     Inr \<lparr>firstTime = False, isrDone = - 1000, exitHook = True, hw = board0,
          log = [Call board0 GpioInitialise 79, AtExit]\<rparr> \<and>
   (\<exists>v s'. mexFunction demo 1 [] (loaded board0) = Some (Inr (Some v), s') \<and>
       v = 10494082 \<and> 0 \<le> v \<and>
       calls_of (new_events (loaded board0) s') = [GpioInitialise, GpioHardwareRevision]) \<and>
   init_stage demo (loaded (board0\<lparr>init_rc := - 1\<rparr>)) =
     Inl \<lparr>firstTime = True, isrDone = - 1000, exitHook = False, hw = board0\<lparr>init_rc := - 1\<rparr>,
          log = [Call (board0\<lparr>init_rc := - 1\<rparr>) GpioInitialise (- 1)]\<rparr>"
proof -
  have v: "uint (gpioHardwareRevision demo board0) = 10494082"
    by (simp add: demo_simps)
  have f: "firstTime (loaded board0)" by (simp add: loaded_def)
  from revision_query [of demo "loaded board0"
      "\<lparr>firstTime = False, isrDone = - 1000, exitHook = True, hw = board0,
          log = [Call board0 GpioInitialise 79, AtExit]\<rparr>"] demo_init_ok v f
  have "\<exists>v s'. mexFunction demo 1 [] (loaded board0) = Some (Inr (Some v), s') \<and>
       v = 10494082 \<and> 0 \<le> v \<and>
       calls_of (new_events (loaded board0) s') = [GpioInitialise, GpioHardwareRevision]"
    by auto
  with demo_init_ok demo_init_fails show ?thesis by blast
qed

subsection \<open>Commands 1 to 3: a negative argument\<close>




subsection \<open>Command 2: the PWM range\<close>

text \<open>
  C10 says that the range is 1024 whenever the duty-cycle call is made. The code does
  not look at what \<^verbatim>\<open>gpioSetPWMrange\<close> answers. On the board, pin 40 is refused: the
  range query answers -2, the range call answers -2 and changes nothing, and
  \<^verbatim>\<open>gpioPWM\<close> is called all the same.
\<close>

theorem pwm_range_counterexample:
  "mexFunction demo 0 [2, 40, 100] (loaded board0) =
     Some (Inl PwmFailed,
           \<lparr>firstTime = False, isrDone = - 1000, exitHook = True, hw = board0,
            log = [Call board0 GpioInitialise 79, AtExit,
                   Call board0 (GpioGetPWMrange 40) (- 2),
                   Call board0 (GpioSetPWMrange 40 1024) (- 2),
                   Call board0 (GpioPWM 40 100) (- 2)]\<rparr>) \<and>
   gpioGetPWMrange demo 40 board0 = - 2"
  by (simp add: mexFunction_dispatch [OF demo_init_ok] dispatch_def invoke_def demo_simps user_gpio_def)

text \<open>
  C10, with its condition. Let \<open>p\<close> and \<open>d\<close> be the integer parts of the pin and of
  the duty. When the lazy initialisation has passed and the duty passes validation
  (it is above -1 and below 1025), the code queries the range of the pin first, calls
  \<^verbatim>\<open>gpioSetPWMrange(p, 1024)\<close> when the answer is not 1024, and calls \<^verbatim>\<open>gpioPWM(p, d)\<close>
  last, in the hardware state the range call has left. If the backend carries the
  range call out, so that the range reads 1024 after it, the range is 1024 in the
  hardware state in which \<^verbatim>\<open>gpioPWM\<close> is called.
\<close>

theorem pwm_range_set_before_duty:
  fixes bk :: "'h backend" and pin duty :: real
  defines "p \<equiv> c_int pin" and "d \<equiv> c_int duty"
  assumes "init_stage bk s = Inr s0" and "- 1 < duty" and "duty < 1025"
    and "gpioGetPWMrange bk p (hw s0) \<noteq> 1024 \<Longrightarrow>
         gpioGetPWMrange bk p (snd (gpioSetPWMrange bk p 1024 (hw s0))) = 1024"
  shows "\<exists>r s' pre h rc.
           mexFunction bk nlhs [2, pin, duty] s = Some (r, s') \<and>
           new_events s0 s' = pre @ [Call h (GpioPWM p d) rc] \<and>
           calls_of pre =
             (if gpioGetPWMrange bk p (hw s0) = 1024 then [GpioGetPWMrange p]
              else [GpioGetPWMrange p, GpioSetPWMrange p 1024]) \<and>
           gpioGetPWMrange bk p h = 1024 \<and>
           h = (if gpioGetPWMrange bk p (hw s0) = 1024 then hw s0
                else snd (gpioSetPWMrange bk p 1024 (hw s0))) \<and>
           rc = fst (gpioPWM bk p d h) \<and> hw s' = snd (gpioPWM bk p d h)"
proof -
  from assms(4,5) have v: "\<not> 1024 < c_int duty" "\<not> c_int duty < 0"
    by (simp_all add: c_int_greater_1024 c_int_less_0)
  show ?thesis
  proof (cases "gpioGetPWMrange bk p (hw s0) = 1024")
    case True
    with assms(3) v show ?thesis
      unfolding p_def d_def
      by (simp add: mexFunction_dispatch dispatch_pwm Let_def invoke_snd new_events_def)
  next
    case False
    with assms(3) v assms(6) show ?thesis
      unfolding p_def d_def
      by (simp add: mexFunction_dispatch dispatch_pwm Let_def invoke_snd new_events_def)
  qed
qed

theorem pwm_range_set_before_duty_witness:
  "init_stage demo (loaded board0) =
     Inr \<lparr>firstTime = False, isrDone = - 1000, exitHook = True, hw = board0,
          log = [Call board0 GpioInitialise 79, AtExit]\<rparr> \<and>
   (- 1 :: real) < 512 \<and> (512 :: real) < 1025 \<and>
   gpioGetPWMrange demo 17 (snd (gpioSetPWMrange demo 17 1024 board0)) = 1024 \<and>
   (\<exists>r s' pre h rc.
       mexFunction demo 0 [2, 17, 512] (loaded board0) = Some (r, s') \<and>
       new_events \<lparr>firstTime = False, isrDone = - 1000, exitHook = True, hw = board0,
          log = [Call board0 GpioInitialise 79, AtExit]\<rparr> s' = pre @ [Call h (GpioPWM 17 512) rc] \<and>
       calls_of pre = [GpioGetPWMrange 17, GpioSetPWMrange 17 1024] \<and>
       gpioGetPWMrange demo 17 h = 1024 \<and>
       h = board0\<lparr>pwm_range := 1024\<rparr> \<and> rc = 0 \<and>
       hw s' = board0\<lparr>pwm_range := 1024, pwm_duty := 512\<rparr>)"
proof -
  have h: "gpioGetPWMrange demo 17 (snd (gpioSetPWMrange demo 17 1024 board0)) = 1024"
    by (simp add: demo_simps user_gpio_def)
  have r: "gpioGetPWMrange demo 17 board0 \<noteq> 1024"
    by (simp add: demo_simps user_gpio_def board0_def)
  have g: "snd (gpioSetPWMrange demo 17 1024 board0) = board0\<lparr>pwm_range := 1024\<rparr>"
    "fst (gpioPWM demo 17 512 (board0\<lparr>pwm_range := 1024\<rparr>)) = 0"
    "snd (gpioPWM demo 17 512 (board0\<lparr>pwm_range := 1024\<rparr>)) =
       board0\<lparr>pwm_range := 1024, pwm_duty := 512\<rparr>"
    by (simp_all add: demo_simps user_gpio_def)
  from pwm_range_set_before_duty [OF demo_init_ok, of 512 17 0] h r g demo_init_ok
  show ?thesis by simp
qed

end
